theory Spec2Isabelle
  imports Complex_Main "HOL-Library.Sublist"
begin

section \<open>The script \<^verbatim>\<open>src/core/examples/sample-rng-plot.py\<close>\<close>

text \<open>
  The script imports four libraries and the ns-3 bindings, parses one command-line flag,
  configures a normal random variable, draws 10000 samples from it and hands them to
  matplotlib. Everything it does is a call into a library, so the model is a program
  that logs each call it makes and asks a test double for the answer. The argument
  parser is the one library whose behaviour the script's own control flow depends on;
  it is modelled as the standard library implements it.
\<close>

subsection \<open>Python values and exceptions\<close>

text \<open>
  The values the script passes around. \<open>PyObject\<close> is an opaque handle to an object of
  an external library (the random variable, a \<^verbatim>\<open>DoubleValue\<close>, a figure artist): the
  script only passes such objects back to the library. Float literals are kept as the
  decimal numbers the source writes; the script does no arithmetic on them.
\<close>

datatype pyval =
    PyNone
  | PyBool bool
  | PyInt int
  | PyFloat real
  | PyStr string
  | PyList "pyval list"
  | PyTuple "pyval list"
  | PyObject nat

text \<open>
  An exception is its class, given as the names along the method resolution order, and
  its argument. \<^verbatim>\<open>except C\<close> catches an exception whose class is \<open>C\<close> or a subclass.
\<close>

datatype exn = Exn (exn_mro: "string list") (exn_arg: pyval)

definition isinstance :: "exn \<Rightarrow> string \<Rightarrow> bool" where
  "isinstance e cls = (cls \<in> set (exn_mro e))"

definition SystemExit :: "pyval \<Rightarrow> exn" where
  "SystemExit code = Exn [''SystemExit'', ''BaseException'', ''object''] code"

definition ModuleNotFoundError :: "string \<Rightarrow> exn" where
  "ModuleNotFoundError msg =
     Exn [''ModuleNotFoundError'', ''ImportError'', ''Exception'', ''BaseException'', ''object'']
       (PyStr msg)"

definition ImportError :: "string \<Rightarrow> exn" where
  "ImportError msg =
     Exn [''ImportError'', ''Exception'', ''BaseException'', ''object''] (PyStr msg)"

definition TypeError :: "string \<Rightarrow> exn" where
  "TypeError msg =
     Exn [''TypeError'', ''Exception'', ''BaseException'', ''object''] (PyStr msg)"

definition ValueError :: "string \<Rightarrow> exn" where
  "ValueError msg =
     Exn [''ValueError'', ''Exception'', ''BaseException'', ''object''] (PyStr msg)"

text \<open>
  Unpacking into three names, as in \<^verbatim>\<open>n, bins, patches = v\<close>: the value is iterated and
  must yield exactly three items. A list, a tuple and a string can be iterated; \<^verbatim>\<open>None\<close>,
  a boolean and a number cannot, which raises \<^verbatim>\<open>TypeError\<close>, and another number of items
  raises \<^verbatim>\<open>ValueError\<close>. An opaque handle stands for an object that is only passed
  around; it is taken not to be iterable, and the name of its class is not modelled.
\<close>

fun iterate :: "pyval \<Rightarrow> pyval list option" where
  "iterate (PyList xs) = Some xs"
| "iterate (PyTuple xs) = Some xs"
| "iterate (PyStr s) = Some (map (\<lambda>c. PyStr [c]) s)"
| "iterate v = None"

fun type_name :: "pyval \<Rightarrow> string" where
  "type_name PyNone = ''NoneType''"
| "type_name (PyBool b) = ''bool''"
| "type_name (PyInt i) = ''int''"
| "type_name (PyFloat r) = ''float''"
| "type_name (PyStr s) = ''str''"
| "type_name (PyList xs) = ''list''"
| "type_name (PyTuple xs) = ''tuple''"
| "type_name (PyObject h) = ''object''"

definition unpack3 :: "pyval \<Rightarrow> exn + (pyval \<times> pyval \<times> pyval)" where
  "unpack3 v =
     (case iterate v of
        None \<Rightarrow> Inl (TypeError (''cannot unpack non-iterable '' @ type_name v @ '' object''))
      | Some xs \<Rightarrow>
          if length xs = 3 then Inr (xs ! 0, xs ! 1, xs ! 2)
          else if length xs < 3
          then Inl (ValueError (''not enough values to unpack (expected 3, got '' @
                      [''012'' ! length xs] @ '')''))
          else Inl (ValueError ''too many values to unpack (expected 3)''))"

subsection \<open>The argument parser\<close>

text \<open>
  Lines 32 to 34 build \<^verbatim>\<open>argparse.ArgumentParser("sample-rng-plot")\<close>, add the option
  \<^verbatim>\<open>--not-blocking\<close> with \<^verbatim>\<open>action="store_true", default=False\<close> and call
  \<^verbatim>\<open>parse_args(sys.argv[1:])\<close>. The parser is created with the library's defaults:
  \<^verbatim>\<open>prefix_chars='-'\<close>, \<^verbatim>\<open>add_help=True\<close> (the options \<^verbatim>\<open>-h\<close> and \<^verbatim>\<open>--help\<close>),
  \<^verbatim>\<open>allow_abbrev=True\<close>, \<^verbatim>\<open>exit_on_error=True\<close>, no positional argument. The functions
  below follow \<^verbatim>\<open>argparse.py\<close> of CPython 3.11 for a parser configured this way, and keep
  its names (without the leading underscore).
\<close>

datatype action = HelpAction | StoreTrueAction

text \<open>The parser's \<^verbatim>\<open>_option_string_actions\<close>, in the order of registration.\<close>

definition option_string_actions :: "(string \<times> action) list" where
  "option_string_actions =
     [(''-h'', HelpAction), (''--help'', HelpAction), (''--not-blocking'', StoreTrueAction)]"

text \<open>
  An option tuple \<open>(action, option_string, sep, explicit_arg)\<close>; \<open>None\<close> is Python's
  \<^verbatim>\<open>None\<close>.
\<close>

type_synonym option_tuple = "action option \<times> string \<times> string option \<times> string option"

datatype argument_error =
    AmbiguousOption string
  | IgnoredExplicitArgument string
  | UnrecognizedArguments "string list"
  | UnexpectedOptionString string

text \<open>
  The two ways the parser ends the process: \<^verbatim>\<open>parser.error(message)\<close> prints the usage and
  the message to stderr and exits with status 2; the help action prints the help text to
  stdout and calls \<^verbatim>\<open>parser.exit()\<close>, status 0.
\<close>

datatype parser_exit = UsageError argument_error | HelpExit

record namespace =
  not_blocking :: bool

text \<open>\<^verbatim>\<open>str.partition(c)\<close>: the part before the first \<open>c\<close>, the separator, the part after it.\<close>

definition str_partition :: "string \<Rightarrow> char \<Rightarrow> string \<times> string \<times> string" where
  "str_partition s c =
     (case dropWhile (\<lambda>x. x \<noteq> c) s of
        [] \<Rightarrow> (s, [], [])
      | _ # after \<Rightarrow> (takeWhile (\<lambda>x. x \<noteq> c) s, [c], after))"

definition isdigit :: "char \<Rightarrow> bool" where
  "isdigit c = (c \<in> set ''0123456789'')"

text \<open>
  The parser's \<^verbatim>\<open>_negative_number_matcher\<close>, the regular expression
  \<^verbatim>\<open>^-\d+$|^-\d*\.\d+$\<close> (over ASCII digits; \<^verbatim>\<open>$\<close> also matches before one final newline).
\<close>

definition negative_number_matcher :: "string \<Rightarrow> bool" where
  "negative_number_matcher s =
     (case s of
        [] \<Rightarrow> False
      | c # rest \<Rightarrow>
          c = CHR ''-'' \<and>
          (let body = (if rest \<noteq> [] \<and> last rest = CHR 0x0A then butlast rest else rest);
               int_part = takeWhile isdigit body;
               frac = dropWhile isdigit body
           in (body \<noteq> [] \<and> frac = []) \<or>
              (case frac of
                 [] \<Rightarrow> False
               | d # ds \<Rightarrow> d = CHR ''.'' \<and> ds \<noteq> [] \<and> list_all isdigit ds)))"

text \<open>
  \<^verbatim>\<open>_get_option_tuples\<close>: the options an abbreviated option string may stand for. It is
  called on strings of at least two characters that start with \<^verbatim>\<open>-\<close>; on a shorter
  string Python's indexing would raise, which the last case stands for.
\<close>

definition get_option_tuples :: "string \<Rightarrow> argument_error + option_tuple list" where
  "get_option_tuples option_string =
     (case option_string of
        c0 # c1 # _ \<Rightarrow>
          if c0 = CHR ''-'' \<and> c1 = CHR ''-'' then
            (case str_partition option_string (CHR ''='') of
               (option_prefix, sep, explicit_arg) \<Rightarrow>
                 Inr (map (\<lambda>(s, a). (Some a, s,
                             if sep = [] then None else Some sep,
                             if sep = [] then None else Some explicit_arg))
                       (filter (\<lambda>(s, a). prefix option_prefix s) option_string_actions)))
          else if c0 = CHR ''-'' \<and> c1 \<noteq> CHR ''-'' then
            Inr (concat (map (\<lambda>(s, a).
                   if s = take 2 option_string
                   then [(Some a, s, Some [], Some (drop 2 option_string))]
                   else if prefix option_string s then [(Some a, s, None, None)]
                   else []) option_string_actions))
          else Inl (UnexpectedOptionString option_string)
      | _ \<Rightarrow> Inl (UnexpectedOptionString option_string))"

text \<open>
  \<^verbatim>\<open>_parse_optional\<close>: \<open>Inr None\<close> when the string is a positional argument, an option
  tuple when it is an option (with action \<open>None\<close> when the parser has no such option),
  and a usage error when an abbreviation is ambiguous.
\<close>

definition parse_optional :: "string \<Rightarrow> argument_error + option_tuple option" where
  "parse_optional arg_string =
     (if arg_string = [] then Inr None
      else if hd arg_string \<noteq> CHR ''-'' then Inr None
      else case map_of option_string_actions arg_string of
        Some action \<Rightarrow> Inr (Some (Some action, arg_string, None, None))
      | None \<Rightarrow>
          if length arg_string = 1 then Inr None
          else case str_partition arg_string (CHR ''='') of
            (option_string, sep, explicit_arg) \<Rightarrow>
              (case (if sep \<noteq> [] then map_of option_string_actions option_string else None) of
                 Some action \<Rightarrow> Inr (Some (Some action, option_string, Some sep, Some explicit_arg))
               | None \<Rightarrow>
                   (case get_option_tuples arg_string of
                      Inl err \<Rightarrow> Inl err
                    | Inr option_tuples \<Rightarrow>
                        if length option_tuples > 1 then Inl (AmbiguousOption arg_string)
                        else if length option_tuples = 1 then Inr (Some (hd option_tuples))
                        else if negative_number_matcher arg_string then Inr None
                        else if CHR '' '' \<in> set arg_string then Inr None
                        else Inr (Some (None, arg_string, None, None)))))"

text \<open>
  The pattern of the argument strings: \<open>PO\<close> at an option (with its tuple, the entry of
  \<^verbatim>\<open>option_string_indices\<close>), \<open>PA\<close> at an argument, \<open>PDash\<close> at \<^verbatim>\<open>--\<close>, after which every
  string is an argument.
\<close>

datatype pattern = PO option_tuple | PA | PDash

fun arg_strings_pattern :: "string list \<Rightarrow> argument_error + pattern list" where
  "arg_strings_pattern [] = Inr []"
| "arg_strings_pattern (arg_string # rest) =
     (if arg_string = ''--'' then Inr (PDash # map (\<lambda>_. PA) rest)
      else case parse_optional arg_string of
        Inl err \<Rightarrow> Inl err
      | Inr option_tuple \<Rightarrow>
          (case arg_strings_pattern rest of
             Inl err \<Rightarrow> Inl err
           | Inr parts \<Rightarrow>
               Inr ((case option_tuple of None \<Rightarrow> PA | Some t \<Rightarrow> PO t) # parts)))"

text \<open>
  The loop of \<^verbatim>\<open>consume_optional\<close> for an option the parser knows. Both actions take no
  argument (\<^verbatim>\<open>nargs=0\<close>), so \<^verbatim>\<open>_match_argument\<close> always counts 0 arguments. An explicit
  argument after a single-dash option is read as further single-dash options
  (\<^verbatim>\<open>-hh\<close>); any other explicit argument is an error. The result is the list of
  \<^verbatim>\<open>action_tuples\<close> and what was appended to \<^verbatim>\<open>extras\<close>.
\<close>

function consume_optional_loop ::
  "action \<Rightarrow> string \<Rightarrow> string option \<Rightarrow> string option \<Rightarrow> (action \<times> string) list \<Rightarrow>
     argument_error + ((action \<times> string) list \<times> string list)" where
  "consume_optional_loop action option_string sep explicit_arg action_tuples =
     (case explicit_arg of
        None \<Rightarrow> Inr (action_tuples @ [(action, option_string)], [])
      | Some ea \<Rightarrow>
          if option_string ! 1 \<noteq> CHR ''-'' \<and> ea \<noteq> [] then
            if (sep \<noteq> None \<and> sep \<noteq> Some []) \<or> hd ea = CHR ''-''
            then Inl (IgnoredExplicitArgument ea)
            else
              (case map_of option_string_actions [CHR ''-'', hd ea] of
                 Some action' \<Rightarrow>
                   if tl ea = [] then
                     consume_optional_loop action' [CHR ''-'', hd ea] None None
                       (action_tuples @ [(action, option_string)])
                   else if hd (tl ea) = CHR ''='' then
                     consume_optional_loop action' [CHR ''-'', hd ea] (Some ''='')
                       (Some (tl (tl ea))) (action_tuples @ [(action, option_string)])
                   else
                     consume_optional_loop action' [CHR ''-'', hd ea] (Some [])
                       (Some (tl ea)) (action_tuples @ [(action, option_string)])
               | None \<Rightarrow> Inr (action_tuples @ [(action, option_string)], [CHR ''-'' # ea]))
          else Inl (IgnoredExplicitArgument ea))"
  by pat_completeness auto
termination
  by (relation "measure (\<lambda>(a, s, sep, ea, ts). case ea of None \<Rightarrow> 0 | Some x \<Rightarrow> Suc (length x))")
     (auto split: option.splits)

text \<open>
  \<^verbatim>\<open>consume_optional\<close>: an option the parser does not know goes to \<^verbatim>\<open>extras\<close>.
\<close>

definition consume_optional ::
  "string \<Rightarrow> option_tuple \<Rightarrow> argument_error + ((action \<times> string) list \<times> string list)" where
  "consume_optional arg_string t =
     (case t of (action, option_string, sep, explicit_arg) \<Rightarrow>
        (case action of
           None \<Rightarrow> Inr ([], [arg_string])
         | Some a \<Rightarrow> consume_optional_loop a option_string sep explicit_arg []))"

text \<open>
  \<^verbatim>\<open>take_action\<close>: the store-true action sets \<^verbatim>\<open>namespace.not_blocking = True\<close>; the help
  action prints the help and exits.
\<close>

fun take_action :: "action \<Rightarrow> namespace \<Rightarrow> parser_exit + namespace" where
  "take_action StoreTrueAction ns = Inr (ns\<lparr>not_blocking := True\<rparr>)"
| "take_action HelpAction ns = Inl HelpExit"

fun take_actions :: "(action \<times> string) list \<Rightarrow> namespace \<Rightarrow> parser_exit + namespace" where
  "take_actions [] ns = Inr ns"
| "take_actions ((a, option_string) # ts) ns =
     (case take_action a ns of Inl ex \<Rightarrow> Inl ex | Inr ns' \<Rightarrow> take_actions ts ns')"

text \<open>
  The main loop of \<^verbatim>\<open>_parse_known_args\<close>. The parser has no positional argument, so
  \<^verbatim>\<open>consume_positionals\<close> consumes nothing: every argument string that is not an option
  ends in \<^verbatim>\<open>extras\<close>, in the order of the command line, and each option is consumed in
  turn.
\<close>

fun consume :: "(string \<times> pattern) list \<Rightarrow> namespace \<Rightarrow> string list \<Rightarrow>
    parser_exit + (namespace \<times> string list)" where
  "consume [] ns extras = Inr (ns, extras)"
| "consume ((arg_string, PO t) # rest) ns extras =
     (case consume_optional arg_string t of
        Inl err \<Rightarrow> Inl (UsageError err)
      | Inr (action_tuples, extra) \<Rightarrow>
          (case take_actions action_tuples ns of
             Inl ex \<Rightarrow> Inl ex
           | Inr ns' \<Rightarrow> consume rest ns' (extras @ extra)))"
| "consume ((arg_string, p) # rest) ns extras = consume rest ns (extras @ [arg_string])"

text \<open>
  \<^verbatim>\<open>parse_known_args\<close> starts from the namespace of the defaults
  (\<^verbatim>\<open>not_blocking=False\<close>); \<^verbatim>\<open>parse_args\<close> rejects a command line that leaves extras.
\<close>

definition parse_known_args :: "string list \<Rightarrow> parser_exit + (namespace \<times> string list)" where
  "parse_known_args args =
     (case arg_strings_pattern args of
        Inl err \<Rightarrow> Inl (UsageError err)
      | Inr parts \<Rightarrow> consume (zip args parts) \<lparr>not_blocking = False\<rparr> [])"

definition parse_args :: "string list \<Rightarrow> parser_exit + namespace" where
  "parse_args args =
     (case parse_known_args args of
        Inl ex \<Rightarrow> Inl ex
      | Inr (ns, argv) \<Rightarrow>
          if argv \<noteq> [] then Inl (UsageError (UnrecognizedArguments argv)) else Inr ns)"

text \<open>Both exits are a \<^verbatim>\<open>sys.exit(status)\<close>, which raises \<^verbatim>\<open>SystemExit(status)\<close>.\<close>

fun parser_exit_exn :: "parser_exit \<Rightarrow> exn" where
  "parser_exit_exn (UsageError err) = SystemExit (PyInt 2)"
| "parser_exit_exn HelpExit = SystemExit (PyInt 0)"

subsection \<open>Calls into the external libraries\<close>

text \<open>
  The libraries the script talks to (the import system, the ns-3 bindings, matplotlib)
  are collaborators of which the script sees only what each call returns or raises.
  A run logs every such call, in order; a test double of the libraries answers a call
  from the calls made before it.
\<close>

datatype call =
    Import string
  | ImportFrom string string
  | Call string "pyval list" "(string \<times> pyval) list"
  | Method pyval string "pyval list" "(string \<times> pyval) list"

datatype response = Returns pyval | Raises exn

type_synonym libraries = "call list \<Rightarrow> call \<Rightarrow> response"

text \<open>
  A piece of the program takes the log so far and gives the log afterwards, with the
  exception it raised or the value it produced.
\<close>

type_synonym 'a prog = "call list \<Rightarrow> (exn + 'a) \<times> call list"

definition return :: "'a \<Rightarrow> 'a prog" where
  "return v tr = (Inr v, tr)"

definition raise :: "exn \<Rightarrow> 'a prog" where
  "raise e tr = (Inl e, tr)"

definition bind :: "'a prog \<Rightarrow> ('a \<Rightarrow> 'b prog) \<Rightarrow> 'b prog" where
  "bind m f tr = (case m tr of (Inl e, tr') \<Rightarrow> (Inl e, tr') | (Inr v, tr') \<Rightarrow> f v tr')"

definition external :: "libraries \<Rightarrow> call \<Rightarrow> pyval prog" where
  "external lib c tr =
     (case lib tr c of Returns v \<Rightarrow> (Inr v, tr @ [c]) | Raises e \<Rightarrow> (Inl e, tr @ [c]))"

text \<open>A step of the interpreter itself, which logs no call.\<close>

definition lift :: "exn + 'a \<Rightarrow> 'a prog" where
  "lift r tr = (r, tr)"

text \<open>\<^verbatim>\<open>try: body except cls: handler\<close>.\<close>

definition try_except :: "'a prog \<Rightarrow> string \<Rightarrow> 'a prog \<Rightarrow> 'a prog" where
  "try_except body cls handler tr =
     (case body tr of
        (Inl e, tr') \<Rightarrow> if isinstance e cls then handler tr' else (Inl e, tr')
      | (Inr v, tr') \<Rightarrow> (Inr v, tr'))"

subsection \<open>The script\<close>

definition backslash :: char where
  "backslash = CHR 0x5C"

text \<open>The raw string of line 60, \<^verbatim>\<open>$\mu=100,\ \sigma=15$\<close> with its three backslashes.\<close>

definition annotation :: string where
  "annotation = ''$'' @ [backslash] @ ''mu=100,'' @ [backslash] @ '' '' @ [backslash] @ ''sigma=15$''"

text \<open>The argument of \<^verbatim>\<open>SystemExit\<close> in lines 24 to 28 (three adjacent string literals).\<close>

definition error_message :: string where
  "error_message =
     ''Error: ns3 Python module not found;'' @
     '' Python bindings may not be enabled'' @
     '' or your PYTHONPATH might not be properly configured''"

text \<open>
  Lines 39 to 41: the random variable is created and its two attributes are set. In
  \<^verbatim>\<open>rng.SetAttribute("Mean", ns.DoubleValue(100.0))\<close> the argument is evaluated, a call of
  its own, before \<^verbatim>\<open>SetAttribute\<close> is called.
\<close>

definition random_number_generator :: "libraries \<Rightarrow> pyval prog" where
  "random_number_generator lib =
     bind (external lib (Call ''ns.CreateObject[ns.NormalRandomVariable]'' [] [])) (\<lambda>rng.
     bind (external lib (Call ''ns.DoubleValue'' [PyFloat 100.0] [])) (\<lambda>mean.
     bind (external lib (Method rng ''SetAttribute'' [PyStr ''Mean'', mean] [])) (\<lambda>_.
     bind (external lib (Call ''ns.DoubleValue'' [PyFloat 225.0] [])) (\<lambda>variance.
     bind (external lib (Method rng ''SetAttribute'' [PyStr ''Variance'', variance] [])) (\<lambda>_.
     return rng)))))"

text \<open>
  Line 44, \<^verbatim>\<open>x = [rng.GetValue() for t in range(10000)]\<close>: the comprehension over
  \<^verbatim>\<open>range(n)\<close> calls \<^verbatim>\<open>rng.GetValue()\<close> once per element and collects the values in
  that order.
\<close>

fun random_number_samples :: "libraries \<Rightarrow> pyval \<Rightarrow> nat \<Rightarrow> pyval list prog" where
  "random_number_samples lib rng 0 = return []"
| "random_number_samples lib rng (Suc n) =
     bind (external lib (Method rng ''GetValue'' [] [])) (\<lambda>v.
     bind (random_number_samples lib rng n) (\<lambda>vs.
     return (v # vs)))"

text \<open>
  Lines 57 to 63. Line 57 unpacks what \<^verbatim>\<open>plt.hist\<close> returns into the three names
  \<^verbatim>\<open>n\<close>, \<^verbatim>\<open>bins\<close> and \<^verbatim>\<open>patches\<close>, which raises when the result is not an iterable of
  three items; the names are not used again (the comment of lines 55 and 56 says that
  the plot results are not needed). The locals \<^verbatim>\<open>density\<close>, \<^verbatim>\<open>facecolor\<close> and
  \<^verbatim>\<open>alpha\<close> of lines 49 to 53 are not used either, the call repeats their values as
  literals.
\<close>

definition histogram :: "libraries \<Rightarrow> pyval list \<Rightarrow> namespace \<Rightarrow> unit prog" where
  "histogram lib x args =
     bind (external lib (Call ''plt.hist'' [PyList x, PyInt 50]
             [(''density'', PyBool True), (''facecolor'', PyStr ''g''),
              (''alpha'', PyFloat 0.75)])) (\<lambda>result.
     bind (lift (unpack3 result)) (\<lambda>(n, bins, patches).
     bind (external lib (Call ''plt.title'' [PyStr ''ns-3 histogram''] [])) (\<lambda>_.
     bind (external lib (Call ''plt.text'' [PyInt 60, PyFloat 0.025, PyStr annotation] [])) (\<lambda>_.
     bind (external lib (Call ''plt.axis''
             [PyList [PyInt 40, PyInt 160, PyInt 0, PyFloat 0.03]] [])) (\<lambda>_.
     bind (external lib (Call ''plt.grid'' [PyBool True] [])) (\<lambda>_.
     bind (external lib (Call ''plt.show'' [] [(''block'', PyBool (\<not> not_blocking args))])) (\<lambda>_.
     return ())))))))"

text \<open>
  \<^verbatim>\<open>main\<close>, lines 31 to 63; \<open>sys_argv\<close> is \<^verbatim>\<open>sys.argv\<close>, of which the parser gets
  \<^verbatim>\<open>sys.argv[1:]\<close>.
\<close>

definition main :: "libraries \<Rightarrow> string list \<Rightarrow> unit prog" where
  "main lib sys_argv =
     (case parse_args (drop 1 sys_argv) of
        Inl ex \<Rightarrow> raise (parser_exit_exn ex)
      | Inr args \<Rightarrow>
          bind (random_number_generator lib) (\<lambda>rng.
          bind (random_number_samples lib rng 10000) (\<lambda>x.
          histogram lib x args)))"

text \<open>
  The module, lines 14 to 67: four imports, the guarded import of the ns-3 bindings, and
  the call of \<^verbatim>\<open>main\<close> when the module runs as a program (\<open>name\<close> is \<^verbatim>\<open>__name__\<close>).
\<close>

definition script :: "libraries \<Rightarrow> string \<Rightarrow> string list \<Rightarrow> (exn + unit) \<times> call list" where
  "script lib name sys_argv =
     bind (external lib (Import ''argparse'')) (\<lambda>argparse.
     bind (external lib (Import ''sys'')) (\<lambda>sys.
     bind (external lib (Import ''matplotlib.pyplot'')) (\<lambda>plt.
     bind (external lib (Import ''numpy'')) (\<lambda>np.
     bind (try_except (external lib (ImportFrom ''ns'' ''ns'')) ''ModuleNotFoundError''
             (raise (SystemExit (PyStr error_message)))) (\<lambda>ns.
     if name = ''__main__'' then main lib sys_argv else return ()))))) []"

subsection \<open>How the interpreter ends the process\<close>

text \<open>
  A run that ends without exception has exit status 0. An uncaught \<^verbatim>\<open>SystemExit\<close> gives
  the status in its code (\<^verbatim>\<open>None\<close> is 0, an integer is itself); any other code is printed
  to stderr with status 1. Any other uncaught exception prints a traceback, status 1.
\<close>

fun exit_status :: "exn + unit \<Rightarrow> int" where
  "exit_status (Inr u) = 0"
| "exit_status (Inl e) =
     (if isinstance e ''SystemExit''
      then (case exn_arg e of
              PyNone \<Rightarrow> 0
            | PyInt n \<Rightarrow> n
            | PyBool b \<Rightarrow> (if b then 1 else 0)
            | _ \<Rightarrow> 1)
      else 1)"

datatype stderr_output = NoOutput | ExitMessage pyval | Traceback exn

fun interpreter_stderr :: "exn + unit \<Rightarrow> stderr_output" where
  "interpreter_stderr (Inr u) = NoOutput"
| "interpreter_stderr (Inl e) =
     (if isinstance e ''SystemExit''
      then (case exn_arg e of
              PyNone \<Rightarrow> NoOutput
            | PyInt n \<Rightarrow> NoOutput
            | PyBool b \<Rightarrow> NoOutput
            | v \<Rightarrow> ExitMessage v)
      else Traceback e)"

subsection \<open>Reading a run\<close>

text \<open>The import statements of lines 14 to 22, in order.\<close>

definition import_statements :: "call list" where
  "import_statements =
     [Import ''argparse'', Import ''sys'', Import ''matplotlib.pyplot'', Import ''numpy'',
      ImportFrom ''ns'' ''ns'']"

text \<open>
  \<open>replay lib tr cs\<close> are the answers the libraries give when the calls \<open>cs\<close> are made
  one after the other, after the calls \<open>tr\<close>.
\<close>

fun replay :: "libraries \<Rightarrow> call list \<Rightarrow> call list \<Rightarrow> response list" where
  "replay lib tr [] = []"
| "replay lib tr (c # cs) = lib tr c # replay lib (tr @ [c]) cs"

fun returns :: "response \<Rightarrow> bool" where
  "returns (Returns v) = True"
| "returns (Raises e) = False"

subsection \<open>Test doubles\<close>

text \<open>An installation without the ns-3 bindings: \<^verbatim>\<open>from ns import ns\<close> finds no module.\<close>

definition ns3_missing :: libraries where
  "ns3_missing tr c =
     (if c = ImportFrom ''ns'' ''ns'' then Raises (ModuleNotFoundError ''No module named ns'')
      else Returns PyNone)"

text \<open>An installation whose package \<^verbatim>\<open>ns\<close> is found but fails to provide \<^verbatim>\<open>ns\<close>.\<close>

definition ns3_broken :: libraries where
  "ns3_broken tr c =
     (if c = ImportFrom ''ns'' ''ns'' then Raises (ImportError ''cannot import name ns'')
      else Returns PyNone)"

text \<open>An installation without matplotlib.\<close>

definition matplotlib_missing :: libraries where
  "matplotlib_missing tr c =
     (if c = Import ''matplotlib.pyplot''
      then Raises (ModuleNotFoundError ''No module named matplotlib'')
      else Returns PyNone)"

subsection \<open>Spellings of the options\<close>

text \<open>
  The strings the parser reads as the option \<^verbatim>\<open>--not-blocking\<close>: the option string and
  its abbreviations, the prefixes of at least three characters (\<^verbatim>\<open>--n\<close>, \<^verbatim>\<open>--no\<close>,
  \<^verbatim>\<open>--not\<close> and so on).
\<close>

definition not_blocking_flag :: "string \<Rightarrow> bool" where
  "not_blocking_flag s = (3 \<le> length s \<and> prefix s ''--not-blocking'')"

text \<open>
  The strings that begin like a help option, \<^verbatim>\<open>-h\<close> or \<^verbatim>\<open>--h\<close>; every string the
  parser reads as a request for help is one of them.
\<close>

definition help_like :: "string \<Rightarrow> bool" where
  "help_like s = (prefix ''-h'' s \<or> prefix ''--h'' s)"

text \<open>
  In the main loop every option tuple is the one \<^verbatim>\<open>_parse_optional\<close> gave for the
  argument string at that index.
\<close>

definition provenance :: "(string \<times> pattern) list \<Rightarrow> bool" where
  "provenance zs = (\<forall>(a, p)\<in>set zs. \<forall>t. p = PO t \<longrightarrow> parse_optional a = Inr (Some t))"

text \<open>
  Libraries in working order, with a generator that returns 100.0 at every call. The
  double of \<^verbatim>\<open>ns.DoubleValue\<close> returns a value that shows its argument, the double of
  \<^verbatim>\<open>plt.hist\<close> a tuple of three.
\<close>

definition stub_libraries :: libraries where
  "stub_libraries tr c =
     (case c of
        Method obj m args kwargs \<Rightarrow>
          if m = ''GetValue'' then Returns (PyFloat 100.0) else Returns PyNone
      | Call f args kwargs \<Rightarrow>
          if f = ''ns.CreateObject[ns.NormalRandomVariable]'' then Returns (PyObject 0)
          else if f = ''ns.DoubleValue'' then Returns (PyList (PyStr ''DoubleValue'' # args))
          else if f = ''plt.hist'' then Returns (PyTuple [PyList [], PyList [], PyList []])
          else Returns PyNone
      | _ \<Rightarrow> Returns PyNone)"

subsection \<open>The calls of a run\<close>

text \<open>The call of \<^verbatim>\<open>rng.GetValue()\<close>.\<close>

definition GetValue :: "pyval \<Rightarrow> call" where
  "GetValue rng = Method rng ''GetValue'' [] []"

text \<open>
  The five calls of lines 39 to 41, for the random variable \<open>rng\<close> and the two
  \<^verbatim>\<open>DoubleValue\<close> objects \<open>mean\<close> and \<open>variance\<close>.
\<close>

definition configuration :: "pyval \<Rightarrow> pyval \<Rightarrow> pyval \<Rightarrow> call list" where
  "configuration rng mean variance =
     [Call ''ns.CreateObject[ns.NormalRandomVariable]'' [] [],
      Call ''ns.DoubleValue'' [PyFloat 100.0] [],
      Method rng ''SetAttribute'' [PyStr ''Mean'', mean] [],
      Call ''ns.DoubleValue'' [PyFloat 225.0] [],
      Method rng ''SetAttribute'' [PyStr ''Variance'', variance] []]"

text \<open>The six calls of lines 57 to 63, for the samples \<open>x\<close>.\<close>

definition histogram_calls :: "pyval list \<Rightarrow> bool \<Rightarrow> call list" where
  "histogram_calls x block =
     [Call ''plt.hist'' [PyList x, PyInt 50]
        [(''density'', PyBool True), (''facecolor'', PyStr ''g''), (''alpha'', PyFloat 0.75)],
      Call ''plt.title'' [PyStr ''ns-3 histogram''] [],
      Call ''plt.text'' [PyInt 60, PyFloat 0.025, PyStr annotation] [],
      Call ''plt.axis'' [PyList [PyInt 40, PyInt 160, PyInt 0, PyFloat 0.03]] [],
      Call ''plt.grid'' [PyBool True] [],
      Call ''plt.show'' [] [(''block'', PyBool block)]]"

text \<open>Making a list of calls one after the other, up to the first that raises.\<close>

fun run_calls :: "libraries \<Rightarrow> call list \<Rightarrow> call list \<Rightarrow> (exn + unit) \<times> call list" where
  "run_calls lib tr [] = (Inr (), tr)"
| "run_calls lib tr (c # cs) =
     (case lib tr c of
        Returns v \<Rightarrow> run_calls lib (tr @ [c]) cs
      | Raises e \<Rightarrow> (Inl e, tr @ [c]))"

fun returned :: "response \<Rightarrow> pyval" where
  "returned (Returns v) = v"
| "returned (Raises e) = PyNone"

text \<open>
  The configuration calls and the samples as the libraries determine them, from the
  log \<open>tr\<close> at which they start.
\<close>

definition configuration_of :: "libraries \<Rightarrow> call list \<Rightarrow> call list" where
  "configuration_of lib tr =
     (let rng = returned (lib tr (Call ''ns.CreateObject[ns.NormalRandomVariable]'' [] []));
          mean = returned (lib (tr @ take 1 (configuration rng PyNone PyNone))
                   (Call ''ns.DoubleValue'' [PyFloat 100.0] []));
          variance = returned (lib (tr @ take 3 (configuration rng mean PyNone))
                       (Call ''ns.DoubleValue'' [PyFloat 225.0] []))
      in configuration rng mean variance)"

fun samples :: "libraries \<Rightarrow> call list \<Rightarrow> pyval \<Rightarrow> nat \<Rightarrow> pyval list" where
  "samples lib tr rng 0 = []"
| "samples lib tr rng (Suc n) =
     returned (lib tr (GetValue rng)) # samples lib (tr @ [GetValue rng]) rng n"

text \<open>The calls of a run, each with the answer it got.\<close>

definition answers :: "libraries \<Rightarrow> call list \<Rightarrow> (call \<times> response) list" where
  "answers lib tr = zip tr (replay lib [] tr)"

text \<open>Kinds of calls.\<close>

fun is_GetValue :: "call \<Rightarrow> bool" where
  "is_GetValue (Method obj m args kwargs) = (m = ''GetValue'')"
| "is_GetValue c = False"

fun is_SetAttribute :: "call \<Rightarrow> bool" where
  "is_SetAttribute (Method obj m args kwargs) = (m = ''SetAttribute'')"
| "is_SetAttribute c = False"

fun is_CreateObject :: "call \<Rightarrow> bool" where
  "is_CreateObject (Call f args kwargs) = prefix ''ns.CreateObject'' f"
| "is_CreateObject c = False"

fun is_plt :: "call \<Rightarrow> bool" where
  "is_plt (Call f args kwargs) = prefix ''plt.'' f"
| "is_plt c = False"

fun is_show :: "call \<Rightarrow> bool" where
  "is_show (Call f args kwargs) = (f = ''plt.show'')"
| "is_show c = False"

text \<open>
  The same libraries with a plotting double that returns \<^verbatim>\<open>None\<close> from every call,
  \<^verbatim>\<open>plt.hist\<close> included.
\<close>

definition plotting_returns_none :: libraries where
  "plotting_returns_none tr c =
     (case c of
        Call f args kwargs \<Rightarrow> if prefix ''plt.'' f then Returns PyNone else stub_libraries tr c
      | _ \<Rightarrow> stub_libraries tr c)"

text \<open>The calls of a complete run against \<open>stub_libraries\<close>.\<close>

definition stub_trace :: "bool \<Rightarrow> call list" where
  "stub_trace block =
     import_statements @
     configuration (PyObject 0) (PyList [PyStr ''DoubleValue'', PyFloat 100.0])
       (PyList [PyStr ''DoubleValue'', PyFloat 225.0]) @
     replicate 10000 (GetValue (PyObject 0)) @
     histogram_calls (replicate 10000 (PyFloat 100.0)) block"

section \<open>Properties\<close>

subsection \<open>Running the program step by step\<close>

lemma bind_external:
  "bind (external lib c) f tr =
     (case lib tr c of Returns v \<Rightarrow> f v (tr @ [c]) | Raises e \<Rightarrow> (Inl e, tr @ [c]))"
  by (simp add: bind_def external_def split: response.splits)

lemma bind_return: "bind (return v) f tr = f v tr"
  by (simp add: bind_def return_def)

lemma bind_raise: "bind (raise e) f tr = (Inl e, tr)"
  by (simp add: bind_def raise_def)

lemma bind_lift:
  "bind (lift r) f tr = (case r of Inl e \<Rightarrow> (Inl e, tr) | Inr v \<Rightarrow> f v tr)"
  by (simp add: bind_def lift_def split: sum.splits)

lemma bind_try_external:
  "bind (try_except (external lib c) cls (raise e')) f tr =
     (case lib tr c of
        Returns v \<Rightarrow> f v (tr @ [c])
      | Raises e \<Rightarrow> (Inl (if isinstance e cls then e' else e), tr @ [c]))"
  by (simp add: bind_def try_except_def external_def raise_def split: response.splits)

lemma returns_iff: "returns r \<longleftrightarrow> (\<exists>v. r = Returns v)"
  by (cases r) simp_all

lemma isinstance_SystemExit [simp]: "isinstance (SystemExit code) ''SystemExit''"
  by (simp add: isinstance_def SystemExit_def)

lemma exn_arg_SystemExit [simp]: "exn_arg (SystemExit code) = code"
  by (simp add: SystemExit_def)

lemma SystemExit_inject [simp]: "SystemExit a = SystemExit b \<longleftrightarrow> a = b"
  by (simp add: SystemExit_def)

subsection \<open>The argument parser\<close>


lemma str_partition_cases:
  assumes "str_partition s c = (b, sep, after)"
  shows "(sep = [] \<and> b = s \<and> after = [] \<and> c \<notin> set s) \<or>
         (sep = [c] \<and> s = b @ c # after \<and> c \<notin> set b)"
proof (cases "dropWhile (\<lambda>x. x \<noteq> c) s")
  case Nil
  then have "c \<notin> set s" by auto
  moreover have "str_partition s c = (s, [], [])"
    unfolding str_partition_def Nil by simp
  ultimately show ?thesis using assms by simp
next
  case (Cons y ys)
  then have y: "y = c" using hd_dropWhile [of "\<lambda>x. x \<noteq> c" s] by force
  have "s = takeWhile (\<lambda>x. x \<noteq> c) s @ dropWhile (\<lambda>x. x \<noteq> c) s" by simp
  with Cons y have "s = takeWhile (\<lambda>x. x \<noteq> c) s @ c # ys" by simp
  moreover have "c \<notin> set (takeWhile (\<lambda>x. x \<noteq> c) s)"
    by (auto dest: set_takeWhileD)
  ultimately show ?thesis using Cons assms by (auto simp: str_partition_def)
qed

lemma not_blocking_flag_iff:
  "not_blocking_flag s \<longleftrightarrow> s \<in> {''--n'', ''--no'', ''--not'', ''--not-'', ''--not-b'', ''--not-bl'',
     ''--not-blo'', ''--not-bloc'', ''--not-block'', ''--not-blocki'', ''--not-blockin'', ''--not-blocking''}"
  unfolding not_blocking_flag_def
  by (auto simp add: in_set_prefixes [symmetric])

lemma parse_optional_flag:
  "not_blocking_flag s \<Longrightarrow>
     parse_optional s = Inr (Some (Some StoreTrueAction, ''--not-blocking'', None, None))"
  unfolding not_blocking_flag_iff
  apply (elim insertE emptyE)
  by (hypsubst, code_simp)+


lemma get_option_tuples_action:
  assumes "get_option_tuples a = Inr ts" and "length ts = 1"
    and "hd ts = (Some act, s, sep, ea)"
  shows "(act = StoreTrueAction \<longrightarrow> s = ''--not-blocking'' \<and> (ea = None \<longrightarrow> not_blocking_flag a)) \<and>
         (act = HelpAction \<longrightarrow> help_like a)"
proof (cases a)
  case Nil
  with assms show ?thesis by (simp add: get_option_tuples_def)
next
  case (Cons c0 r)
  note a0 = this
  show ?thesis
  proof (cases r)
    case Nil
    with a0 assms show ?thesis by (simp add: get_option_tuples_def)
  next
    case (Cons c1 rest)
    note a1 = this
    show ?thesis
    proof (cases "c0 = CHR ''-'' \<and> c1 = CHR ''-''")
      case True
      obtain b sp after where p: "str_partition a (CHR ''='') = (b, sp, after)"
        by (cases "str_partition a (CHR ''='')") auto
      from str_partition_cases [OF p] True a0 a1
      have b: "(sp = [] \<and> b = a) \<or> (sp \<noteq> [])" by auto
      from assms True a0 a1 p have
        ts: "ts = map (\<lambda>(s, a). (Some a, s, if sp = [] then None else Some sp,
                       if sp = [] then None else Some after))
                 (filter (\<lambda>(s, a). prefix b s) option_string_actions)"
        by (simp add: get_option_tuples_def)
      show ?thesis
      proof (cases "sp = []")
        case True
        with b have "b = a" by auto
        with ts assms(2,3) a0 a1 \<open>c0 = CHR ''-'' \<and> c1 = CHR ''-''\<close> show ?thesis
          by (cases rest)
             (auto simp add: option_string_actions_def not_blocking_flag_def help_like_def
                split: if_splits)
      next
        case False
        with str_partition_cases [OF p] have "a = b @ CHR ''='' # after" by auto
        with a0 a1 \<open>c0 = CHR ''-'' \<and> c1 = CHR ''-''\<close>
        obtain b' where b': "b = CHR ''-'' # CHR ''-'' # b'"
          by (cases b; cases "tl b") auto
        show ?thesis
        proof (cases b')
          case Nil
          with b' ts assms(2) show ?thesis
            by (simp add: option_string_actions_def)
        next
          case (Cons d ds)
          with b' \<open>a = b @ CHR ''='' # after\<close> False ts assms(2,3) show ?thesis
            by (auto simp add: option_string_actions_def help_like_def split: if_splits)
        qed
      qed
    next
      case False
      with assms a0 a1 show ?thesis
        by (auto simp add: get_option_tuples_def option_string_actions_def help_like_def
              split: if_splits)
    qed
  qed
qed

lemma parse_optional_action:
  assumes "parse_optional a = Inr (Some (Some act, s, sep, ea))"
  shows "(act = StoreTrueAction \<longrightarrow> s = ''--not-blocking'' \<and> (ea = None \<longrightarrow> not_blocking_flag a)) \<and>
         (act = HelpAction \<longrightarrow> help_like a)"
proof (cases "map_of option_string_actions a")
  case (Some act')
  with assms show ?thesis
    by (auto simp add: parse_optional_def option_string_actions_def not_blocking_flag_def
          help_like_def split: if_splits)
next
  case None
  obtain b sp after where p: "str_partition a (CHR ''='') = (b, sp, after)"
    by (cases "str_partition a (CHR ''='')") auto
  show ?thesis
  proof (cases "if sp \<noteq> [] then map_of option_string_actions b else None")
    case (Some act')
    then have sp: "sp \<noteq> []" and b: "map_of option_string_actions b = Some act'"
      by (auto split: if_splits)
    from str_partition_cases [OF p] sp have a: "a = b @ CHR ''='' # after" by auto
    from assms None p Some sp have "act = act' \<and> s = b \<and> ea = Some after"
      by (auto simp add: parse_optional_def split: if_splits)
    with b a show ?thesis
      by (auto simp add: option_string_actions_def help_like_def split: if_splits)
  next
    case None2: None
    from assms None p None2 obtain ts where
      "get_option_tuples a = Inr ts" "length ts = 1" "hd ts = (Some act, s, sep, ea)"
      by (auto simp add: parse_optional_def split: if_splits sum.splits)
    then show ?thesis by (rule get_option_tuples_action)
  qed
qed

declare consume_optional_loop.simps [simp del]

lemma consume_optional_loop_tuples:
  "consume_optional_loop act s sep ea ts = Inr (ts', ex) \<Longrightarrow> \<exists>rest. ts' = ts @ (act, s) # rest"
proof (induction act s sep ea ts rule: consume_optional_loop.induct)
  case (1 action option_string sep explicit_arg action_tuples)
  show ?case
  proof (cases explicit_arg)
    case None
    with "1.prems" show ?thesis
      by (auto simp add: consume_optional_loop.simps)
  next
    case (Some x)
    with "1.prems" "1.IH" show ?thesis
      by (subst (asm) consume_optional_loop.simps)
         (fastforce split: if_splits option.splits)
  qed
qed

lemma consume_optional_loop_explicit:
  "s ! 1 = CHR ''-'' \<Longrightarrow>
     consume_optional_loop act s sep (Some x) ts = Inl (IgnoredExplicitArgument x)"
  by (simp add: consume_optional_loop.simps)

lemma take_actions_help: "take_actions ((HelpAction, s) # rest) ns = Inl HelpExit"
  by simp

lemma step_success:
  assumes "parse_optional a = Inr (Some t)"
    and "consume_optional a t = Inr (ts, ex)"
    and "take_actions ts ns = Inr ns'"
    and "ex = []"
  shows "not_blocking_flag a \<and> not_blocking ns'"
proof -
  obtain act s sep ea where t: "t = (act, s, sep, ea)" by (cases t) auto
  show ?thesis
  proof (cases act)
    case None
    with t assms show ?thesis by (simp add: consume_optional_def)
  next
    case (Some action)
    with t assms(2) have loop: "consume_optional_loop action s sep ea [] = Inr (ts, ex)"
      by (simp add: consume_optional_def)
    from consume_optional_loop_tuples [OF loop] obtain rest where ts: "ts = (action, s) # rest"
      by auto
    show ?thesis
    proof (cases action)
      case HelpAction
      with ts assms(3) show ?thesis by simp
    next
      case StoreTrueAction
      with parse_optional_action [of a action s sep ea] assms(1) t Some
      have s: "s = ''--not-blocking''" and flag: "ea = None \<longrightarrow> not_blocking_flag a"
        by auto
      show ?thesis
      proof (cases ea)
        case None
        with loop have "ts = [(action, s)]"
          by (simp add: consume_optional_loop.simps)
        with assms(3) StoreTrueAction flag None show ?thesis by auto
      next
        case (Some x)
        with loop s consume_optional_loop_explicit [of s action sep x "[]"] show ?thesis
          by simp
      qed
    qed
  qed
qed

lemma step_no_help:
  assumes "parse_optional a = Inr (Some t)"
    and "\<not> help_like a"
    and "consume_optional a t = Inr (ts, ex)"
  shows "take_actions ts ns \<noteq> Inl HelpExit"
proof -
  obtain act s sep ea where t: "t = (act, s, sep, ea)" by (cases t) auto
  show ?thesis
  proof (cases act)
    case None
    with t assms show ?thesis by (simp add: consume_optional_def)
  next
    case (Some action)
    with parse_optional_action [of a action s sep ea] assms(1,2) t
    have st: "action = StoreTrueAction" and s: "s = ''--not-blocking''"
      by (cases action; auto)+
    with t Some assms(3) have loop: "consume_optional_loop StoreTrueAction s sep ea [] = Inr (ts, ex)"
      by (simp add: consume_optional_def)
    show ?thesis
    proof (cases ea)
      case None
      with loop have "ts = [(StoreTrueAction, s)]"
        by (simp add: consume_optional_loop.simps)
      then show ?thesis by simp
    next
      case (Some x)
      with loop s consume_optional_loop_explicit [of s StoreTrueAction sep x "[]"] show ?thesis
        by simp
    qed
  qed
qed

lemma consume_extras_grow:
  "consume zs ns extras = Inr (ns', extras') \<Longrightarrow> \<exists>more. extras' = extras @ more"
proof (induction zs ns extras rule: consume.induct)
  case (2 arg_string t rest ns extras)
  then show ?case
    by (fastforce split: sum.splits prod.splits)
qed auto

lemma consume_success:
  assumes "consume zs ns extras = Inr (ns', [])" and "provenance zs"
  shows "extras = [] \<and> (\<forall>(a, p)\<in>set zs. not_blocking_flag a) \<and>
         not_blocking ns' = (not_blocking ns \<or> zs \<noteq> [])"
  using assms
proof (induction zs ns extras rule: consume.induct)
  case (1 ns extras)
  then show ?case by simp
next
  case (2 arg_string t rest ns extras)
  from "2.prems"(1) obtain ts ex ns1 where
    co: "consume_optional arg_string t = Inr (ts, ex)" and
    ta: "take_actions ts ns = Inr ns1" and
    rest: "consume rest ns1 (extras @ ex) = Inr (ns', [])"
    by (auto split: sum.splits prod.splits)
  from "2.prems"(2) have po: "parse_optional arg_string = Inr (Some t)"
    and prov: "provenance rest"
    by (cases t; auto simp: provenance_def)+
  from "2.IH" [OF co refl ta rest prov]
  have ih: "extras @ ex = []" "\<forall>(a, p)\<in>set rest. not_blocking_flag a"
    "not_blocking ns' = (not_blocking ns1 \<or> rest \<noteq> [])" by auto
  from step_success [OF po co ta] ih(1) have "not_blocking_flag arg_string" "not_blocking ns1"
    by auto
  with ih show ?case by auto
qed (auto dest: consume_extras_grow)

lemma consume_no_help:
  assumes "provenance zs" and "\<forall>(a, p)\<in>set zs. \<not> help_like a"
  shows "consume zs ns extras \<noteq> Inl HelpExit"
  using assms
proof (induction zs ns extras rule: consume.induct)
  case (2 arg_string t rest ns extras)
  from "2.prems" have po: "parse_optional arg_string = Inr (Some t)"
    and nh: "\<not> help_like arg_string"
    and prov: "provenance rest" and nhr: "\<forall>(a, p)\<in>set rest. \<not> help_like a"
    by (cases t; auto simp: provenance_def)+
  show ?case
  proof (cases "consume_optional arg_string t")
    case (Inl err)
    then show ?thesis by simp
  next
    case (Inr r)
    obtain ts ex where r: "r = (ts, ex)" by (cases r) auto
    show ?thesis
    proof (cases "take_actions ts ns")
      case (Inl x)
      with step_no_help [OF po nh, of ts ex ns] Inr r show ?thesis by auto
    next
      case Inr2: (Inr ns1)
      with "2.IH" [OF Inr [unfolded r] refl Inr2 prov nhr] Inr r show ?thesis by simp
    qed
  qed
qed (auto simp: provenance_def)

lemma arg_strings_pattern_sound:
  "arg_strings_pattern args = Inr parts \<Longrightarrow>
     length parts = length args \<and> provenance (zip args parts)"
proof (induction args arbitrary: parts)
  case Nil
  then show ?case by (simp add: provenance_def)
next
  case (Cons a args)
  show ?case
  proof (cases "a = ''--''")
    case True
    with Cons.prems have "parts = PDash # map (\<lambda>_. PA) args" by simp
    then show ?thesis
      by (auto simp: provenance_def zip_map2 dest: set_zip_rightD)
  next
    case False
    with Cons.prems obtain ot ps where po: "parse_optional a = Inr ot"
      and ps: "arg_strings_pattern args = Inr ps"
      and parts: "parts = (case ot of None \<Rightarrow> PA | Some t \<Rightarrow> PO t) # ps"
      by (auto split: sum.splits)
    from Cons.IH [OF ps] po parts show ?thesis
      by (auto simp: provenance_def split: option.splits)
  qed
qed

lemma parse_args_returns:
  assumes "parse_args args = Inr ns"
  shows "(\<forall>a\<in>set args. not_blocking_flag a) \<and> not_blocking ns = (args \<noteq> [])"
proof -
  from assms obtain parts where pat: "arg_strings_pattern args = Inr parts"
    and con: "consume (zip args parts) \<lparr>not_blocking = False\<rparr> [] = Inr (ns, [])"
    by (auto simp: parse_args_def parse_known_args_def split: sum.splits prod.splits if_splits)
  from arg_strings_pattern_sound [OF pat] have len: "length parts = length args"
    and prov: "provenance (zip args parts)" by auto
  from consume_success [OF con prov]
  have all: "\<forall>(a, p)\<in>set (zip args parts). not_blocking_flag a"
    and nb: "not_blocking ns = (zip args parts \<noteq> [])" by auto
  have "not_blocking_flag a" if "a \<in> set args" for a
  proof -
    from that len obtain p where "(a, p) \<in> set (zip args parts)"
      by (metis in_set_impl_in_set_zip1)
    with all show ?thesis by auto
  qed
  moreover from len have "(zip args parts \<noteq> []) = (args \<noteq> [])"
    by (cases args; cases parts) auto
  ultimately show ?thesis using nb by simp
qed

lemma parse_args_usage_error:
  assumes "\<forall>a\<in>set args. \<not> help_like a" and "\<exists>a\<in>set args. \<not> not_blocking_flag a"
  shows "\<exists>err. parse_args args = Inl (UsageError err)"
proof (cases "arg_strings_pattern args")
  case (Inl err)
  then show ?thesis by (simp add: parse_args_def parse_known_args_def)
next
  case (Inr parts)
  from arg_strings_pattern_sound [OF Inr] have len: "length parts = length args"
    and prov: "provenance (zip args parts)" by auto
  from assms(1) have nh: "\<forall>(a, p)\<in>set (zip args parts). \<not> help_like a"
    by (auto dest: set_zip_leftD)
  show ?thesis
  proof (cases "parse_args args")
    case (Inl ex)
    moreover have "ex \<noteq> HelpExit"
      using consume_no_help [OF prov nh, of "\<lparr>not_blocking = False\<rparr>" "[]"] Inl Inr
      by (auto simp: parse_args_def parse_known_args_def split: sum.splits prod.splits if_splits)
    ultimately show ?thesis by (cases ex) auto
  next
    case Inr2: (Inr ns)
    from parse_args_returns [OF Inr2] assms(2) show ?thesis by auto
  qed
qed

text \<open>
  Conversely, the parser accepts every list of spellings of \<^verbatim>\<open>--not-blocking\<close>, so it
  returns a namespace exactly for these lists.
\<close>

lemma arg_strings_pattern_spellings:
  "\<forall>a\<in>set args. not_blocking_flag a \<Longrightarrow>
     arg_strings_pattern args =
       Inr (map (\<lambda>a. PO (Some StoreTrueAction, ''--not-blocking'', None, None)) args)"
proof (induction args)
  case Nil
  then show ?case by simp
next
  case (Cons a args)
  from Cons.prems have flag: "not_blocking_flag a" by simp
  then have "a \<noteq> ''--''" by (auto simp: not_blocking_flag_def)
  with parse_optional_flag [OF flag] Cons show ?case by simp
qed

lemma consume_spellings:
  "consume (zip args (map (\<lambda>a. PO (Some StoreTrueAction, ''--not-blocking'', None, None)) args))
     ns extras =
   Inr (if args = [] then ns else ns\<lparr>not_blocking := True\<rparr>, extras)"
proof (induction args arbitrary: ns)
  case Nil
  then show ?case by simp
next
  case (Cons a args)
  have "consume_optional a (Some StoreTrueAction, ''--not-blocking'', None, None) =
          Inr ([(StoreTrueAction, ''--not-blocking'')], [])"
    by (simp add: consume_optional_def consume_optional_loop.simps)
  with Cons.IH [of "ns\<lparr>not_blocking := True\<rparr>"] show ?case by simp
qed

lemma parse_args_spellings:
  assumes "\<forall>a\<in>set args. not_blocking_flag a"
  shows "parse_args args = Inr \<lparr>not_blocking = (args \<noteq> [])\<rparr>"
  using arg_strings_pattern_spellings [OF assms] consume_spellings [of args "\<lparr>not_blocking = False\<rparr>" "[]"]
  by (simp add: parse_args_def parse_known_args_def)

subsection \<open>The imports\<close>

text \<open>
  When the import number \<open>k\<close> is the first to raise, the script ends there. Only the
  last import is guarded, and the guard catches \<^verbatim>\<open>ModuleNotFoundError\<close> alone.
\<close>

lemma script_import_fails:
  assumes "k < 5"
    and "list_all returns (replay lib [] (take k import_statements))"
    and "lib (take k import_statements) (import_statements ! k) = Raises e"
  shows "script lib name sys_argv =
           (Inl (if k = 4 \<and> isinstance e ''ModuleNotFoundError''
                 then SystemExit (PyStr error_message) else e),
            take (Suc k) import_statements)"
proof -
  from assms(1) consider "k = 0" | "k = 1" | "k = 2" | "k = 3" | "k = 4" by linarith
  then show ?thesis
  proof cases
    case 1 with assms show ?thesis
      by (simp add: script_def import_statements_def bind_external)
  next
    case 2 with assms show ?thesis
      by (auto simp add: script_def import_statements_def bind_external returns_iff)
  next
    case 3 with assms show ?thesis
      by (auto simp add: script_def import_statements_def bind_external returns_iff
            numeral_2_eq_2)
  next
    case 4 with assms show ?thesis
      by (auto simp add: script_def import_statements_def bind_external returns_iff
            numeral_3_eq_3)
  next
    case 5 with assms show ?thesis
      by (auto simp add: script_def import_statements_def bind_external bind_try_external
            returns_iff eval_nat_numeral)
  qed
qed

lemma script_imports_succeed:
  assumes "list_all returns (replay lib [] import_statements)"
  shows "script lib name sys_argv =
           (if name = ''__main__'' then main lib sys_argv import_statements
            else (Inr (), import_statements))"
  using assms
  by (auto simp add: script_def import_statements_def bind_external bind_try_external
        returns_iff return_def)

lemma script_ns3_not_found:
  assumes "list_all returns (replay lib [] (take 4 import_statements))"
    and "lib (take 4 import_statements) (ImportFrom ''ns'' ''ns'') = Raises e"
    and "isinstance e ''ModuleNotFoundError''"
  shows "script lib name sys_argv = (Inl (SystemExit (PyStr error_message)), import_statements)"
  using script_import_fails [of 4 lib e name sys_argv] assms
  by (simp add: import_statements_def)

lemma error_message_not_found: "sublist ''not found'' error_message"
  unfolding sublist_def error_message_def
  by (rule exI [of _ "''Error: ns3 Python module ''"],
      rule exI [of _ "''; Python bindings may not be enabled or your PYTHONPATH might not be properly configured''"])
     simp

lemma parse_args_bogus:
  "parse_args [''--bogus''] = Inl (UsageError (UnrecognizedArguments [''--bogus'']))"
  by code_simp

text \<open>
  C3, as the claim states it: whenever the ns-3 module cannot be imported, the program
  ends with the diagnostic that contains "not found". This fails when the import raises
  an \<^verbatim>\<open>ImportError\<close> that is not a \<^verbatim>\<open>ModuleNotFoundError\<close> (the package is found but
  broken): the guard of line 23 does not catch it, and the interpreter prints the
  traceback of that exception, not the diagnostic.
\<close>

theorem import_error_is_not_converted:
  "list_all returns (replay ns3_broken [] (take 4 import_statements)) \<and>
   ns3_broken (take 4 import_statements) (ImportFrom ''ns'' ''ns'') =
     Raises (ImportError ''cannot import name ns'') \<and>
   interpreter_stderr (fst (script ns3_broken ''__main__'' [''sample-rng-plot.py''])) =
     Traceback (ImportError ''cannot import name ns'') \<and>
   interpreter_stderr (fst (script ns3_broken ''__main__'' [''sample-rng-plot.py''])) \<noteq>
     ExitMessage (PyStr error_message)"
proof -
  have a: "list_all returns (replay ns3_broken [] (take 4 import_statements))"
    by (simp add: import_statements_def ns3_broken_def)
  have b: "ns3_broken (take 4 import_statements) (import_statements ! 4) =
             Raises (ImportError ''cannot import name ns'')"
    by (simp add: import_statements_def ns3_broken_def)
  have "script ns3_broken ''__main__'' [''sample-rng-plot.py''] =
          (Inl (ImportError ''cannot import name ns''), import_statements)"
    using script_import_fails [OF _ a b, of "''__main__''" "[''sample-rng-plot.py'']"]
    by (simp add: import_statements_def isinstance_def ImportError_def)
  moreover have "\<not> isinstance (ImportError ''cannot import name ns'') ''SystemExit''"
    by (simp add: isinstance_def ImportError_def)
  ultimately show ?thesis using a b
    by (simp add: import_statements_def)
qed

text \<open>
  C3, amended: when the import of the ns-3 module raises \<^verbatim>\<open>ModuleNotFoundError\<close> (the
  four imports before it having succeeded), the program ends with exit status 1, the
  interpreter prints the message of lines 25 to 27, which contains "not found", and the
  only calls of the run are the five imports: the generator is never constructed, no
  sample is drawn and no plotting operation is called.
\<close>

theorem module_not_found_diagnostic:
  assumes "list_all returns (replay lib [] (take 4 import_statements))"
    and "lib (take 4 import_statements) (ImportFrom ''ns'' ''ns'') = Raises e"
    and "isinstance e ''ModuleNotFoundError''"
  shows "exit_status (fst (script lib name sys_argv)) = 1 \<and>
         interpreter_stderr (fst (script lib name sys_argv)) = ExitMessage (PyStr error_message) \<and>
         sublist ''not found'' error_message \<and>
         snd (script lib name sys_argv) = import_statements"
  using script_ns3_not_found [OF assms, of name sys_argv] error_message_not_found
  by simp

theorem module_not_found_diagnostic_witness:
  "list_all returns (replay ns3_missing [] (take 4 import_statements)) \<and>
   ns3_missing (take 4 import_statements) (ImportFrom ''ns'' ''ns'') =
     Raises (ModuleNotFoundError ''No module named ns'') \<and>
   isinstance (ModuleNotFoundError ''No module named ns'') ''ModuleNotFoundError'' \<and>
   exit_status (fst (script ns3_missing ''__main__'' [''sample-rng-plot.py''])) = 1 \<and>
   interpreter_stderr (fst (script ns3_missing ''__main__'' [''sample-rng-plot.py''])) =
     ExitMessage (PyStr error_message) \<and>
   sublist ''not found'' error_message \<and>
   snd (script ns3_missing ''__main__'' [''sample-rng-plot.py'']) = import_statements"
proof -
  have a: "list_all returns (replay ns3_missing [] (take 4 import_statements))"
    by (simp add: import_statements_def ns3_missing_def)
  have b: "ns3_missing (take 4 import_statements) (ImportFrom ''ns'' ''ns'') =
             Raises (ModuleNotFoundError ''No module named ns'')"
    by (simp add: ns3_missing_def)
  have c: "isinstance (ModuleNotFoundError ''No module named ns'') ''ModuleNotFoundError''"
    by (simp add: isinstance_def ModuleNotFoundError_def)
  show ?thesis
    using module_not_found_diagnostic [OF a b c, of "''__main__''" "[''sample-rng-plot.py'']"] a b c
    by simp
qed

text \<open>
  C9: the guard converts only a \<^verbatim>\<open>ModuleNotFoundError\<close> of the ns-3 import. Whichever of
  the five imports is the first to raise, and whatever it raises, the script ends with
  that very exception, unhandled, unless the import is \<^verbatim>\<open>from ns import ns\<close> and the
  exception is a \<^verbatim>\<open>ModuleNotFoundError\<close>; only then it ends with the diagnostic. So a
  \<^verbatim>\<open>ModuleNotFoundError\<close> of \<^verbatim>\<open>argparse\<close>, \<^verbatim>\<open>matplotlib.pyplot\<close> or \<^verbatim>\<open>numpy\<close> is not
  converted either.
\<close>

theorem import_guard_converts_only_module_not_found:
  assumes "k < 5"
    and "list_all returns (replay lib [] (take k import_statements))"
    and "lib (take k import_statements) (import_statements ! k) = Raises e"
  shows "script lib name sys_argv =
           (Inl (if import_statements ! k = ImportFrom ''ns'' ''ns'' \<and>
                    isinstance e ''ModuleNotFoundError''
                 then SystemExit (PyStr error_message) else e),
            take (Suc k) import_statements)"
proof -
  have "import_statements ! k = ImportFrom ''ns'' ''ns'' \<longleftrightarrow> k = 4"
  proof -
    from assms(1) consider "k = 0" | "k = 1" | "k = 2" | "k = 3" | "k = 4" by linarith
    then show ?thesis
      by cases (simp_all add: import_statements_def)
  qed
  then show ?thesis
    using script_import_fails [OF assms, of name sys_argv] by simp
qed

theorem import_guard_converts_only_module_not_found_witness:
  "(2::nat) < 5 \<and>
   list_all returns (replay matplotlib_missing [] (take 2 import_statements)) \<and>
   matplotlib_missing (take 2 import_statements) (import_statements ! 2) =
     Raises (ModuleNotFoundError ''No module named matplotlib'') \<and>
   script matplotlib_missing ''__main__'' [''sample-rng-plot.py''] =
     (Inl (ModuleNotFoundError ''No module named matplotlib''),
      [Import ''argparse'', Import ''sys'', Import ''matplotlib.pyplot''])"
proof -
  have a: "list_all returns (replay matplotlib_missing [] (take 2 import_statements))"
    by (simp add: import_statements_def matplotlib_missing_def)
  have b: "matplotlib_missing (take 2 import_statements) (import_statements ! 2) =
             Raises (ModuleNotFoundError ''No module named matplotlib'')"
    by (simp add: import_statements_def matplotlib_missing_def)
  show ?thesis
    using import_guard_converts_only_module_not_found
            [OF _ a b, of "''__main__''" "[''sample-rng-plot.py'']"] a b
    by (simp add: import_statements_def)
qed

text \<open>
  C10: the guarded import runs when the module is loaded, before \<^verbatim>\<open>main\<close> and its
  argument parsing. When the ns-3 module is not found, the run ends with the diagnostic
  whatever the argument list is, also one the parser would reject, and it never ends
  through one of the parser's exits.
\<close>

theorem module_not_found_precedes_argument_parsing:
  assumes "list_all returns (replay lib [] (take 4 import_statements))"
    and "lib (take 4 import_statements) (ImportFrom ''ns'' ''ns'') = Raises e"
    and "isinstance e ''ModuleNotFoundError''"
  shows "script lib name sys_argv =
           (Inl (SystemExit (PyStr error_message)), import_statements) \<and>
         (\<forall>ex. fst (script lib name sys_argv) \<noteq> Inl (parser_exit_exn ex))"
proof -
  have run: "script lib name sys_argv =
               (Inl (SystemExit (PyStr error_message)), import_statements)"
    by (rule script_ns3_not_found [OF assms])
  have "SystemExit (PyStr error_message) \<noteq> parser_exit_exn ex" for ex
    by (cases ex) simp_all
  with run show ?thesis by simp
qed

theorem module_not_found_precedes_argument_parsing_witness:
  "list_all returns (replay ns3_missing [] (take 4 import_statements)) \<and>
   ns3_missing (take 4 import_statements) (ImportFrom ''ns'' ''ns'') =
     Raises (ModuleNotFoundError ''No module named ns'') \<and>
   isinstance (ModuleNotFoundError ''No module named ns'') ''ModuleNotFoundError'' \<and>
   parse_args (drop 1 [''sample-rng-plot.py'', ''--bogus'']) =
     Inl (UsageError (UnrecognizedArguments [''--bogus''])) \<and>
   script ns3_missing ''__main__'' [''sample-rng-plot.py'', ''--bogus''] =
     (Inl (SystemExit (PyStr error_message)), import_statements) \<and>
   (\<forall>ex. fst (script ns3_missing ''__main__'' [''sample-rng-plot.py'', ''--bogus'']) \<noteq>
      Inl (parser_exit_exn ex))"
proof -
  have a: "list_all returns (replay ns3_missing [] (take 4 import_statements))"
    by (simp add: import_statements_def ns3_missing_def)
  have b: "ns3_missing (take 4 import_statements) (ImportFrom ''ns'' ''ns'') =
             Raises (ModuleNotFoundError ''No module named ns'')"
    by (simp add: ns3_missing_def)
  have c: "isinstance (ModuleNotFoundError ''No module named ns'') ''ModuleNotFoundError''"
    by (simp add: isinstance_def ModuleNotFoundError_def)
  have p: "parse_args (drop 1 [''sample-rng-plot.py'', ''--bogus'']) =
             Inl (UsageError (UnrecognizedArguments [''--bogus'']))"
    using parse_args_bogus by simp
  show ?thesis
    using module_not_found_precedes_argument_parsing
            [OF a b c, of "''__main__''" "[''sample-rng-plot.py'', ''--bogus'']"]
          a b c p
    by blast
qed

subsection \<open>Rejected command lines\<close>

lemma main_parser_exit:
  "parse_args (drop 1 sys_argv) = Inl ex \<Longrightarrow>
     main lib sys_argv tr = (Inl (parser_exit_exn ex), tr)"
  by (simp add: main_def raise_def)

lemma stub_libraries_returns: "returns (stub_libraries tr c)"
  by (simp add: stub_libraries_def split: call.splits)

lemma replay_returns: "(\<And>tr c. returns (lib tr c)) \<Longrightarrow> list_all returns (replay lib tr cs)"
  by (induction cs arbitrary: tr) auto

lemma parse_args_help: "parse_args [''--help''] = Inl HelpExit"
  by code_simp

text \<open>
  C5, amended: for every argument list that holds an argument other than
  \<^verbatim>\<open>--not-blocking\<close> and its abbreviations (for example \<^verbatim>\<open>--bogus\<close>) and holds no
  argument that begins like a help option (\<^verbatim>\<open>-h\<close>, \<^verbatim>\<open>--h\<close>), argument parsing
  ends through \<^verbatim>\<open>parser.error\<close>: the process exits with status 2, and the five imports
  are the only calls of the run, so the generator is not constructed and nothing is
  sampled or plotted.
\<close>

theorem rejected_argument_is_usage_error:
  assumes "list_all returns (replay lib [] import_statements)"
    and "\<forall>a\<in>set (drop 1 sys_argv). \<not> help_like a"
    and "\<exists>a\<in>set (drop 1 sys_argv). \<not> not_blocking_flag a"
  shows "(\<exists>err. parse_args (drop 1 sys_argv) = Inl (UsageError err)) \<and>
         script lib ''__main__'' sys_argv = (Inl (SystemExit (PyInt 2)), import_statements) \<and>
         exit_status (fst (script lib ''__main__'' sys_argv)) = 2"
proof -
  from parse_args_usage_error [OF assms(2,3)] obtain err where
    err: "parse_args (drop 1 sys_argv) = Inl (UsageError err)" by auto
  with script_imports_succeed [OF assms(1), of "''__main__''" sys_argv]
  have "script lib ''__main__'' sys_argv = (Inl (SystemExit (PyInt 2)), import_statements)"
    by (simp add: main_parser_exit)
  with err show ?thesis by simp
qed

theorem rejected_argument_is_usage_error_witness:
  "list_all returns (replay stub_libraries [] import_statements) \<and>
   \<not> help_like ''--bogus'' \<and> \<not> not_blocking_flag ''--bogus'' \<and>
   (\<exists>err. parse_args (drop 1 [''sample-rng-plot.py'', ''--bogus'']) = Inl (UsageError err)) \<and>
   script stub_libraries ''__main__'' [''sample-rng-plot.py'', ''--bogus''] =
     (Inl (SystemExit (PyInt 2)), import_statements) \<and>
   exit_status (fst (script stub_libraries ''__main__'' [''sample-rng-plot.py'', ''--bogus''])) = 2"
proof -
  have a: "list_all returns (replay stub_libraries [] import_statements)"
    by (rule replay_returns) (rule stub_libraries_returns)
  have b: "\<forall>a\<in>set (drop 1 [''sample-rng-plot.py'', ''--bogus'']). \<not> help_like a"
    by (simp add: help_like_def)
  have c: "\<exists>a\<in>set (drop 1 [''sample-rng-plot.py'', ''--bogus'']). \<not> not_blocking_flag a"
    by (simp add: not_blocking_flag_def)
  have d: "\<not> help_like ''--bogus''" "\<not> not_blocking_flag ''--bogus''"
    by (simp_all add: help_like_def not_blocking_flag_def)
  show ?thesis
    using rejected_argument_is_usage_error [OF a b c] a d by blast
qed

text \<open>
  C5, as the claim states it: every argument list that contains a flag other than
  \<^verbatim>\<open>--not-blocking\<close> ends in the usage error with a non-zero exit. The parser is
  created with \<^verbatim>\<open>add_help=True\<close>, so \<^verbatim>\<open>--help\<close> is such a flag, and with it the
  process prints the help and exits with status 0.
\<close>

theorem help_request_exits_with_status_zero:
  "''--help'' \<in> set (drop 1 [''sample-rng-plot.py'', ''--help'']) \<and>
   ''--help'' \<noteq> ''--not-blocking'' \<and>
   list_all returns (replay stub_libraries [] import_statements) \<and>
   parse_args (drop 1 [''sample-rng-plot.py'', ''--help'']) = Inl HelpExit \<and>
   script stub_libraries ''__main__'' [''sample-rng-plot.py'', ''--help''] =
     (Inl (SystemExit (PyInt 0)), import_statements) \<and>
   exit_status (fst (script stub_libraries ''__main__'' [''sample-rng-plot.py'', ''--help''])) = 0"
proof -
  have a: "list_all returns (replay stub_libraries [] import_statements)"
    by (rule replay_returns) (rule stub_libraries_returns)
  have p: "parse_args (drop 1 [''sample-rng-plot.py'', ''--help'']) = Inl HelpExit"
    using parse_args_help by simp
  have "script stub_libraries ''__main__'' [''sample-rng-plot.py'', ''--help''] =
          (Inl (SystemExit (PyInt 0)), import_statements)"
    using script_imports_succeed [OF a, of "''__main__''" "[''sample-rng-plot.py'', ''--help'']"]
      main_parser_exit [OF p]
    by simp
  with a p show ?thesis by simp
qed

subsection \<open>The run of \<^verbatim>\<open>main\<close>\<close>

lemma bind_assoc: "bind (bind m g) f = bind m (\<lambda>x. bind (g x) f)"
  by (rule ext) (simp add: bind_def split: prod.splits sum.splits)

lemma replay_append:
  "replay lib tr (xs @ ys) = replay lib tr xs @ replay lib (tr @ xs) ys"
  by (induction xs arbitrary: tr) auto

lemma length_replay [simp]: "length (replay lib tr cs) = length cs"
  by (induction cs arbitrary: tr) auto

lemma run_calls_append:
  "run_calls lib tr (xs @ ys) =
     (case run_calls lib tr xs of
        (Inl e, tr') \<Rightarrow> (Inl e, tr')
      | (Inr u, tr') \<Rightarrow> run_calls lib tr' ys)"
  by (induction xs arbitrary: tr) (auto split: response.splits)

lemma run_calls_Inr:
  "run_calls lib tr cs = (Inr u, tr') \<Longrightarrow> tr' = tr @ cs \<and> list_all returns (replay lib tr cs)"
proof (induction cs arbitrary: tr)
  case Nil
  then show ?case by simp
next
  case (Cons c cs)
  from Cons.prems obtain v where v: "lib tr c = Returns v"
    and run: "run_calls lib (tr @ [c]) cs = (Inr u, tr')"
    by (auto split: response.splits)
  from Cons.IH [OF run] v show ?case by simp
qed

lemma run_calls_Inl:
  "run_calls lib tr cs = (Inl e, tr') \<Longrightarrow>
     \<exists>k<length cs. tr' = tr @ take (Suc k) cs \<and> list_all returns (replay lib tr (take k cs)) \<and>
        lib (tr @ take k cs) (cs ! k) = Raises e"
proof (induction cs arbitrary: tr)
  case Nil
  then show ?case by simp
next
  case (Cons c cs)
  show ?case
  proof (cases "lib tr c")
    case (Returns v)
    with Cons.prems have "run_calls lib (tr @ [c]) cs = (Inl e, tr')" by simp
    from Cons.IH [OF this] obtain k where k: "k < length cs" "tr' = (tr @ [c]) @ take (Suc k) cs"
      "list_all returns (replay lib (tr @ [c]) (take k cs))"
      "lib ((tr @ [c]) @ take k cs) (cs ! k) = Raises e" by auto
    with Returns have "Suc k < length (c # cs) \<and> tr' = tr @ take (Suc (Suc k)) (c # cs) \<and>
        list_all returns (replay lib tr (take (Suc k) (c # cs))) \<and>
        lib (tr @ take (Suc k) (c # cs)) ((c # cs) ! Suc k) = Raises e"
      by simp
    then show ?thesis by blast
  next
    case (Raises e')
    with Cons.prems show ?thesis
      by (intro exI [of _ 0]) simp
  qed
qed

lemma histogram_run:
  "histogram lib x args tr =
     (case lib tr (hd (histogram_calls x (\<not> not_blocking args))) of
        Returns v \<Rightarrow>
          (case unpack3 v of
             Inl e \<Rightarrow> (Inl e, tr @ [hd (histogram_calls x (\<not> not_blocking args))])
           | Inr t \<Rightarrow> run_calls lib tr (histogram_calls x (\<not> not_blocking args)))
      | Raises e \<Rightarrow> run_calls lib tr (histogram_calls x (\<not> not_blocking args)))"
  by (simp add: histogram_def histogram_calls_def bind_external bind_lift return_def
        split: response.splits sum.splits prod.splits)

lemma random_number_generator_run:
  "bind (random_number_generator lib) f tr =
     (case run_calls lib tr (configuration_of lib tr) of
        (Inl e, tr') \<Rightarrow> (Inl e, tr')
      | (Inr u, tr') \<Rightarrow>
          f (returned (lib tr (Call ''ns.CreateObject[ns.NormalRandomVariable]'' [] []))) tr')"
  by (simp add: random_number_generator_def configuration_of_def configuration_def Let_def
        bind_assoc bind_external bind_return split: response.splits)

lemma random_number_samples_run:
  "bind (random_number_samples lib rng n) f tr =
     (case run_calls lib tr (replicate n (GetValue rng)) of
        (Inl e, tr') \<Rightarrow> (Inl e, tr')
      | (Inr u, tr') \<Rightarrow> f (samples lib tr rng n) tr')"
proof (induction n arbitrary: tr f)
  case 0
  then show ?case by (simp add: bind_return)
next
  case (Suc n)
  have "bind (random_number_samples lib rng (Suc n)) f tr =
          (case lib tr (GetValue rng) of
             Returns v \<Rightarrow>
               bind (random_number_samples lib rng n) (\<lambda>vs. bind (return (v # vs)) f)
                 (tr @ [GetValue rng])
           | Raises e \<Rightarrow> (Inl e, tr @ [GetValue rng]))"
    by (simp only: random_number_samples.simps bind_assoc bind_external GetValue_def)
  then show ?case
    by (simp add: Suc.IH bind_return split: response.splits prod.splits sum.splits)
qed


lemma returns_returned: "returns r \<Longrightarrow> r = Returns (returned r)"
  by (cases r) simp_all

lemma configuration_of_replay:
  assumes "list_all returns (replay lib tr (configuration_of lib tr))"
  shows "\<exists>rng mean variance u1 u2.
           configuration_of lib tr = configuration rng mean variance \<and>
           rng = returned (lib tr (Call ''ns.CreateObject[ns.NormalRandomVariable]'' [] [])) \<and>
           replay lib tr (configuration rng mean variance) =
             map Returns [rng, mean, u1, variance, u2]"
  using assms
  by (auto simp add: configuration_of_def configuration_def Let_def returns_iff)

lemma configuration_of_shape:
  "\<exists>rng mean variance. configuration_of lib tr = configuration rng mean variance"
  by (simp add: configuration_of_def Let_def) blast

lemma samples_replay:
  "list_all returns (replay lib tr (replicate n (GetValue rng))) \<Longrightarrow>
     replay lib tr (replicate n (GetValue rng)) = map Returns (samples lib tr rng n)"
  by (induction n arbitrary: tr) (auto simp: returns_iff)

lemma length_samples [simp]: "length (samples lib tr rng n) = n"
  by (induction n arbitrary: tr) auto

lemma main_run_calls:
  assumes "parse_args (drop 1 sys_argv) = Inr args"
  shows "main lib sys_argv tr =
           (let rng = returned (lib tr (Call ''ns.CreateObject[ns.NormalRandomVariable]'' [] []));
                conf = configuration_of lib tr;
                x = samples lib (tr @ conf) rng 10000
            in case run_calls lib tr (conf @ replicate 10000 (GetValue rng)) of
                 (Inl e, tr') \<Rightarrow> (Inl e, tr')
               | (Inr u, tr') \<Rightarrow> histogram lib x args tr')"
  using assms
  by (auto simp add: main_def random_number_generator_run random_number_samples_run
        run_calls_append Let_def
        split: prod.splits sum.splits dest: run_calls_Inr)


lemma answers_append:
  "answers lib (xs @ ys) = answers lib xs @ zip ys (replay lib xs ys)"
  by (simp add: answers_def replay_append)

lemma answers_raised:
  "lib xs c = Raises e \<Longrightarrow> (c, Raises e) \<in> set (answers lib (xs @ c # ys))"
  by (simp add: answers_append)

lemma replay_first_raise:
  "list_all returns (replay lib tr cs) \<or>
   (\<exists>k<length cs. \<exists>e. list_all returns (replay lib tr (take k cs)) \<and>
      lib (tr @ take k cs) (cs ! k) = Raises e)"
proof (cases "run_calls lib tr cs")
  case (Pair r tr')
  show ?thesis
  proof (cases r)
    case (Inl e)
    with Pair run_calls_Inl [of lib tr cs e tr'] show ?thesis by blast
  next
    case (Inr u)
    with Pair run_calls_Inr [of lib tr cs u tr'] show ?thesis by blast
  qed
qed

lemma script_cases [consumes 1, case_names import_fails not_main parser_exit main]:
  assumes "script lib name sys_argv = (r, tr)"
  obtains
    k e where "k < 5"
      and "list_all returns (replay lib [] (take k import_statements))"
      and "lib (take k import_statements) (import_statements ! k) = Raises e"
      and "tr = take (Suc k) import_statements"
      and "r = Inl (if k = 4 \<and> isinstance e ''ModuleNotFoundError''
                    then SystemExit (PyStr error_message) else e)"
  | "list_all returns (replay lib [] import_statements)"
      and "name \<noteq> ''__main__''" and "r = Inr ()" and "tr = import_statements"
  | ex where "list_all returns (replay lib [] import_statements)"
      and "name = ''__main__''" and "parse_args (drop 1 sys_argv) = Inl ex"
      and "r = Inl (parser_exit_exn ex)" and "tr = import_statements"
  | args where "list_all returns (replay lib [] import_statements)"
      and "name = ''__main__''" and "parse_args (drop 1 sys_argv) = Inr args"
      and "main lib sys_argv import_statements = (r, tr)"
proof -
  have "length import_statements = 5" by (simp add: import_statements_def)
  with replay_first_raise [of lib "[]" import_statements]
  consider "list_all returns (replay lib [] import_statements)"
    | k e where "k < 5" "list_all returns (replay lib [] (take k import_statements))"
        "lib (take k import_statements) (import_statements ! k) = Raises e"
    by auto
  then show thesis
  proof cases
    case 1
    note ok = this
    show thesis
    proof (cases "name = ''__main__''")
      case False
      with script_imports_succeed [OF ok, of name sys_argv] assms that(2) [OF ok] show thesis
        by simp
    next
      case True
      with script_imports_succeed [OF ok, of name sys_argv] assms
      have m: "main lib sys_argv import_statements = (r, tr)" by simp
      show thesis
      proof (cases "parse_args (drop 1 sys_argv)")
        case (Inl ex)
        with m main_parser_exit [OF Inl, of lib import_statements] that(3) [OF ok True Inl]
        show thesis by simp
      next
        case (Inr args)
        with m that(4) [OF ok True Inr] show thesis by simp
      qed
    qed
  next
    case (2 k e)
    from script_import_fails [OF 2, of name sys_argv] assms that(1) [OF 2] show thesis
      by simp
  qed
qed

lemma main_cases [consumes 2, case_names configuring sampling plotting]:
  assumes "main lib sys_argv tr0 = (r, tr)" and "parse_args (drop 1 sys_argv) = Inr args"
  obtains
    e k rng mean variance where "r = Inl e" and "k < 5"
      and "tr = tr0 @ take (Suc k) (configuration rng mean variance)"
      and "list_all returns (replay lib tr0 (take k (configuration rng mean variance)))"
      and "lib (tr0 @ take k (configuration rng mean variance))
             (configuration rng mean variance ! k) = Raises e"
  | e k rng mean variance u1 u2 where "r = Inl e" and "k < 10000"
      and "replay lib tr0 (configuration rng mean variance) =
             map Returns [rng, mean, u1, variance, u2]"
      and "tr = tr0 @ configuration rng mean variance @ replicate (Suc k) (GetValue rng)"
      and "list_all returns
             (replay lib (tr0 @ configuration rng mean variance) (replicate k (GetValue rng)))"
      and "lib (tr0 @ configuration rng mean variance @ replicate k (GetValue rng))
             (GetValue rng) = Raises e"
  | rng mean variance u1 u2 x where
      "replay lib tr0 (configuration rng mean variance) =
         map Returns [rng, mean, u1, variance, u2]"
      and "length x = 10000"
      and "replay lib (tr0 @ configuration rng mean variance)
             (replicate 10000 (GetValue rng)) = map Returns x"
      and "histogram lib x args
             (tr0 @ configuration rng mean variance @ replicate 10000 (GetValue rng)) = (r, tr)"
proof -
  define rng where "rng = returned (lib tr0 (Call ''ns.CreateObject[ns.NormalRandomVariable]'' [] []))"
  define conf where "conf = configuration_of lib tr0"
  define x where "x = samples lib (tr0 @ conf) rng 10000"
  define G where "G = replicate 10000 (GetValue rng)"
  from main_run_calls [OF assms(2), of lib tr0] assms(1)
  have run: "(case run_calls lib tr0 (conf @ G) of
                (Inl e, tr') \<Rightarrow> (Inl e, tr')
              | (Inr u, tr') \<Rightarrow> histogram lib x args tr') = (r, tr)"
    unfolding rng_def conf_def x_def G_def Let_def by simp
  obtain r1 tr1 where r1: "run_calls lib tr0 conf = (r1, tr1)"
    by (cases "run_calls lib tr0 conf") auto
  show thesis
  proof (cases r1)
    case (Inl e)
    with run r1 have r: "r = Inl e" "tr = tr1" by (simp_all add: run_calls_append)
    from configuration_of_shape [of lib tr0] obtain rng' mean variance where
      c: "conf = configuration rng' mean variance" by (auto simp: conf_def)
    from run_calls_Inl [of lib tr0 conf e tr1] r1 Inl obtain k where
      "k < length conf" "tr1 = tr0 @ take (Suc k) conf"
      "list_all returns (replay lib tr0 (take k conf))"
      "lib (tr0 @ take k conf) (conf ! k) = Raises e" by auto
    with c r that(1) [of e k rng' mean variance] show thesis
      by (simp add: configuration_def)
  next
    case (Inr u)
    with r1 run_calls_Inr [of lib tr0 conf u tr1]
    have tr1: "tr1 = tr0 @ conf" and ok1: "list_all returns (replay lib tr0 conf)" by auto
    from configuration_of_replay [of lib tr0] ok1 obtain rng' mean variance u1 u2 where
      c: "conf = configuration rng' mean variance"
      and rng': "rng' = rng"
      and rep: "replay lib tr0 (configuration rng' mean variance) =
                  map Returns [rng', mean, u1, variance, u2]"
      by (auto simp: conf_def rng_def)
    from run r1 Inr tr1
    have run2: "(case run_calls lib (tr0 @ conf) G of
                   (Inl e, tr') \<Rightarrow> (Inl e, tr')
                 | (Inr u, tr') \<Rightarrow> histogram lib x args tr') = (r, tr)"
      by (simp add: run_calls_append)
    obtain r2 tr2 where r2: "run_calls lib (tr0 @ conf) G = (r2, tr2)"
      by (cases "run_calls lib (tr0 @ conf) G") auto
    show thesis
    proof (cases r2)
      case (Inl e)
      with run2 r2 have r: "r = Inl e" "tr = tr2" by simp_all
      from run_calls_Inl [of lib "tr0 @ conf" G e tr2] r2 Inl obtain k where
        "k < length G" "tr2 = (tr0 @ conf) @ take (Suc k) G"
        "list_all returns (replay lib (tr0 @ conf) (take k G))"
        "lib ((tr0 @ conf) @ take k G) (G ! k) = Raises e" by auto
      with r c rng' rep that(2) [of e k rng mean variance u1 u2] show thesis
        by (simp add: G_def min_def)
    next
      case Inr2: (Inr uu)
      with r2 run_calls_Inr [of lib "tr0 @ conf" G uu tr2]
      have tr2: "tr2 = tr0 @ conf @ G" and ok2: "list_all returns (replay lib (tr0 @ conf) G)"
        by auto
      from samples_replay [of lib "tr0 @ conf" 10000 rng] ok2
      have rep2: "replay lib (tr0 @ conf) G = map Returns x"
        by (simp add: G_def x_def)
      from run2 r2 Inr2 tr2
      have "histogram lib x args (tr0 @ conf @ G) = (r, tr)"
        by simp
      with c rng' rep rep2 that(3) [of rng mean variance u1 u2 x] show thesis
        by (simp add: G_def x_def)
    qed
  qed
qed

subsection \<open>The shape of a run\<close>

lemma import_statements_kinds:
  "c \<in> set import_statements \<Longrightarrow>
     \<not> is_GetValue c \<and> \<not> is_plt c \<and> \<not> is_SetAttribute c \<and> \<not> is_CreateObject c \<and> \<not> is_show c"
  by (auto simp: import_statements_def)

lemma configuration_kinds:
  "c \<in> set (configuration rng mean variance) \<Longrightarrow> \<not> is_GetValue c \<and> \<not> is_plt c \<and> \<not> is_show c"
  by (auto simp: configuration_def)

lemma histogram_calls_kinds:
  "c \<in> set (histogram_calls x block) \<Longrightarrow>
     is_plt c \<and> \<not> is_GetValue c \<and> \<not> is_SetAttribute c \<and> \<not> is_CreateObject c"
  by (auto simp: histogram_calls_def)

lemma GetValue_kinds [simp]:
  "is_GetValue (GetValue rng)" "\<not> is_plt (GetValue rng)" "\<not> is_SetAttribute (GetValue rng)"
  "\<not> is_CreateObject (GetValue rng)" "\<not> is_show (GetValue rng)"
  by (simp_all add: GetValue_def)

lemma answers_take_Suc:
  assumes "k < length cs" and "lib (h @ take k cs) (cs ! k) = Raises e"
  shows "(cs ! k, Raises e) \<in> set (answers lib (h @ take (Suc k) cs))"
proof -
  from assms(1) have "h @ take (Suc k) cs = (h @ take k cs) @ cs ! k # []"
    by (simp add: take_Suc_conv_app_nth)
  with answers_raised [of lib "h @ take k cs" "cs ! k" e "[]"] assms(2) show ?thesis by simp
qed

lemma answers_sampling:
  assumes "lib (h @ replicate k (GetValue rng)) (GetValue rng) = Raises e"
  shows "(GetValue rng, Raises e) \<in> set (answers lib (h @ replicate (Suc k) (GetValue rng)))"
proof -
  have "h @ replicate (Suc k) (GetValue rng) = (h @ replicate k (GetValue rng)) @ GetValue rng # []"
    by (simp add: replicate_append_same)
  with answers_raised [of lib "h @ replicate k (GetValue rng)" "GetValue rng" e "[]"] assms
  show ?thesis by simp
qed

lemma histogram_calls_show:
  assumes "i < length (histogram_calls x block)" and "is_show (histogram_calls x block ! i)"
  shows "i = 5"
proof -
  from assms(1) consider "i = 0" | "i = 1" | "i = 2" | "i = 3" | "i = 4" | "i = 5"
    by (auto simp: histogram_calls_def less_Suc_eq)
  then show ?thesis using assms(2)
    by cases (simp_all add: histogram_calls_def)
qed

lemma length_histogram_calls [simp]: "length (histogram_calls x block) = 6"
  by (simp add: histogram_calls_def)

lemma histogram_calls_run:
  assumes "run_calls lib h (histogram_calls x block) = (r, tr)"
  shows "\<exists>post. tr = h @ post \<and> post \<noteq> [] \<and> prefix post (histogram_calls x block) \<and>
           ((\<exists>c\<in>set post. is_show c) \<longrightarrow> post = histogram_calls x block) \<and>
           (r = Inr () \<longrightarrow> post = histogram_calls x block) \<and>
           (\<forall>e. r = Inl e \<longrightarrow> (\<exists>c. (c, Raises e) \<in> set (answers lib tr)))"
proof (cases r)
  case (Inr u)
  with assms run_calls_Inr [of lib h "histogram_calls x block" u tr]
  have "tr = h @ histogram_calls x block" by simp
  moreover have "histogram_calls x block \<noteq> []" by (simp add: histogram_calls_def)
  ultimately show ?thesis using Inr by auto
next
  case (Inl e)
  with assms run_calls_Inl [of lib h "histogram_calls x block" e tr] obtain k where
    k: "k < length (histogram_calls x block)" "tr = h @ take (Suc k) (histogram_calls x block)"
    "lib (h @ take k (histogram_calls x block)) (histogram_calls x block ! k) = Raises e"
    by auto
  define post where "post = take (Suc k) (histogram_calls x block)"
  from answers_take_Suc [of k "histogram_calls x block" lib h e] k
  have ans: "\<exists>c. (c, Raises e) \<in> set (answers lib tr)" by auto
  have show_last: "post = histogram_calls x block" if "\<exists>c\<in>set post. is_show c"
  proof -
    from that obtain i where i: "i < length post" "is_show (post ! i)"
      by (auto simp: in_set_conv_nth)
    with k(1) have "i < length (histogram_calls x block)" "is_show (histogram_calls x block ! i)"
      by (simp_all add: post_def)
    then have "i = 5" by (rule histogram_calls_show)
    with i(1) k(1) have "k = 5" by (simp add: post_def)
    then show ?thesis by (simp add: post_def)
  qed
  have "length post = Suc k" using k(1) by (simp add: post_def)
  then have "post \<noteq> []" by auto
  moreover have "prefix post (histogram_calls x block)"
    by (simp add: post_def take_is_prefix)
  ultimately show ?thesis using k(2) ans Inl show_last
    unfolding post_def [symmetric] by blast
qed

lemma histogram_cases:
  assumes "histogram lib x args h = (r, tr)"
  shows "\<exists>post. tr = h @ post \<and> post \<noteq> [] \<and>
           prefix post (histogram_calls x (\<not> not_blocking args)) \<and>
           ((\<exists>c\<in>set post. is_show c) \<longrightarrow> post = histogram_calls x (\<not> not_blocking args)) \<and>
           (r = Inr () \<longrightarrow> post = histogram_calls x (\<not> not_blocking args))"
proof -
  define hc where "hc = histogram_calls x (\<not> not_blocking args)"
  have unpack_fails: ?thesis if "tr = h @ [hd hc]" and "r \<noteq> Inr ()"
  proof -
    have "prefix [hd hc] hc" "\<not> is_show (hd hc)"
      by (simp_all add: hc_def histogram_calls_def)
    with that show ?thesis unfolding hc_def [symmetric] by (intro exI [of _ "[hd hc]"]) simp
  qed
  have through: ?thesis if "run_calls lib h hc = (r, tr)"
    using histogram_calls_run [OF that [unfolded hc_def]] by blast
  show ?thesis
  proof (cases "lib h (hd hc)")
    case (Raises e)
    with assms have "run_calls lib h hc = (r, tr)"
      by (simp add: histogram_run hc_def)
    then show ?thesis by (rule through)
  next
    case (Returns v)
    show ?thesis
    proof (cases "unpack3 v")
      case (Inl e)
      with Returns assms have "tr = h @ [hd hc]" "r \<noteq> Inr ()"
        by (auto simp add: histogram_run hc_def)
      then show ?thesis by (rule unpack_fails)
    next
      case (Inr t)
      with Returns assms have "run_calls lib h hc = (r, tr)"
        by (simp add: histogram_run hc_def)
      then show ?thesis by (rule through)
    qed
  qed
qed

lemma prefix_histogram_calls:
  assumes "post \<noteq> []" and "prefix post (histogram_calls x block)"
  shows "\<exists>post'. post = Call ''plt.hist'' [PyList x, PyInt 50]
                     [(''density'', PyBool True), (''facecolor'', PyStr ''g''),
                      (''alpha'', PyFloat 0.75)] # post' \<and>
           (\<forall>c\<in>set post'. is_plt c \<and> \<not> is_GetValue c \<and> \<not> is_SetAttribute c \<and>
              \<not> is_CreateObject c)"
proof -
  from assms(1) obtain p ps where post: "post = p # ps" by (cases post) auto
  from assms(2) have "set post \<subseteq> set (histogram_calls x block)" by (rule set_mono_prefix)
  with post have "\<forall>c\<in>set ps. c \<in> set (histogram_calls x block)" by auto
  then have "\<forall>c\<in>set ps. is_plt c \<and> \<not> is_GetValue c \<and> \<not> is_SetAttribute c \<and>
      \<not> is_CreateObject c"
    using histogram_calls_kinds by blast
  moreover from assms(2) post have "p = Call ''plt.hist'' [PyList x, PyInt 50]
      [(''density'', PyBool True), (''facecolor'', PyStr ''g''), (''alpha'', PyFloat 0.75)]"
    by (simp add: histogram_calls_def)
  ultimately show ?thesis using post by blast
qed

lemma early_exit_kinds:
  assumes "tr = take k import_statements \<or> tr = import_statements"
  shows "\<forall>c\<in>set tr. \<not> is_GetValue c \<and> \<not> is_plt c"
  using assms import_statements_kinds by (auto dest: in_set_takeD)

lemma run_calls_returns:
  "list_all returns (replay lib tr cs) \<Longrightarrow> run_calls lib tr cs = (Inr (), tr @ cs)"
  by (induction cs arbitrary: tr) (auto simp: returns_iff)

lemma script_all_return:
  assumes "\<forall>tr c. returns (lib tr c)" and "parse_args (drop 1 sys_argv) = Inr args"
  shows "\<exists>rng mean variance u1 u2 x.
           script lib ''__main__'' sys_argv =
             histogram lib x args
               (import_statements @ configuration rng mean variance @
                replicate 10000 (GetValue rng)) \<and>
           replay lib import_statements (configuration rng mean variance) =
             map Returns [rng, mean, u1, variance, u2] \<and>
           length x = 10000 \<and>
           replay lib (import_statements @ configuration rng mean variance)
             (replicate 10000 (GetValue rng)) = map Returns x"
proof -
  obtain r tr where run: "script lib ''__main__'' sys_argv = (r, tr)"
    by (cases "script lib ''__main__'' sys_argv") auto
  from run show ?thesis
  proof (cases rule: script_cases)
    case (import_fails k e)
    with assms(1) [rule_format, of "take k import_statements" "import_statements ! k"]
    show ?thesis by simp
  next
    case not_main
    then show ?thesis by simp
  next
    case (parser_exit ex)
    with assms(2) show ?thesis by simp
  next
    case (main args')
    from main(3) assms(2) have args': "args' = args" by simp
    from main(4,3) show ?thesis
    proof (cases rule: main_cases)
      case (configuring e k rng mean variance)
      with assms(1) [rule_format, of "import_statements @ take k (configuration rng mean variance)"
          "configuration rng mean variance ! k"]
      show ?thesis by simp
    next
      case (sampling e k rng mean variance u1 u2)
      with assms(1) [rule_format, of
          "import_statements @ configuration rng mean variance @ replicate k (GetValue rng)"
          "GetValue rng"]
      show ?thesis by simp
    next
      case (plotting rng mean variance u1 u2 x)
      from plotting(4) run args' have "script lib ''__main__'' sys_argv =
          histogram lib x args
            (import_statements @ configuration rng mean variance @
             replicate 10000 (GetValue rng))" by simp
      with plotting(1,2,3) show ?thesis by blast
    qed
  qed
qed

lemma histogram_completes:
  assumes "\<forall>tr c. returns (lib tr c)"
    and "\<forall>tr a kw v. lib tr (Call ''plt.hist'' a kw) = Returns v \<longrightarrow> (\<exists>t. unpack3 v = Inr t)"
  shows "histogram lib x args h = (Inr (), h @ histogram_calls x (\<not> not_blocking args))"
proof -
  define hc where "hc = histogram_calls x (\<not> not_blocking args)"
  from assms(1) have "list_all returns (replay lib h hc)"
    by (intro replay_returns) simp
  then have run: "run_calls lib h hc = (Inr (), h @ hc)" by (rule run_calls_returns)
  from assms(1) obtain v where v: "lib h (hd hc) = Returns v"
    by (auto simp: returns_iff)
  then have "lib h (Call ''plt.hist'' [PyList x, PyInt 50]
      [(''density'', PyBool True), (''facecolor'', PyStr ''g''), (''alpha'', PyFloat 0.75)]) =
      Returns v"
    by (simp add: hc_def histogram_calls_def)
  with assms(2) obtain t where "unpack3 v = Inr t" by blast
  with v run show ?thesis by (simp add: histogram_run hc_def)
qed

lemma replay_constant:
  "\<forall>tr. lib tr c = Returns v \<Longrightarrow> replay lib h (replicate n c) = replicate n (Returns v)"
  by (induction n arbitrary: h) auto

lemma map_Returns_replicate:
  "map Returns x = replicate n (Returns v) \<Longrightarrow> x = replicate n v"
  by (induction n arbitrary: x) auto

lemma answers_returns:
  assumes "\<forall>tr c. returns (lib tr c)"
  shows "list_all (\<lambda>(c, a). returns a) (answers lib tr)"
proof -
  from assms have "list_all returns (replay lib [] tr)"
    by (intro replay_returns) simp
  then show ?thesis
    by (auto simp: list_all_iff answers_def dest: set_zip_rightD)
qed

subsection \<open>The test double\<close>

lemma parse_args_empty: "parse_args [] = Inr \<lparr>not_blocking = False\<rparr>"
  by code_simp

lemma parse_args_not_blocking: "parse_args [''--not-blocking''] = Inr \<lparr>not_blocking = True\<rparr>"
  by code_simp

lemma parse_args_not: "parse_args [''--not''] = Inr \<lparr>not_blocking = True\<rparr>"
  by code_simp

lemma stub_run:
  assumes "parse_args (drop 1 sys_argv) = Inr args"
  shows "script stub_libraries ''__main__'' sys_argv = (Inr (), stub_trace (\<not> not_blocking args))"
proof -
  have ret: "\<forall>tr c. returns (stub_libraries tr c)"
    by (simp add: stub_libraries_returns)
  have hist: "\<forall>tr a kw v. stub_libraries tr (Call ''plt.hist'' a kw) = Returns v \<longrightarrow>
      (\<exists>t. unpack3 v = Inr t)"
    by (auto simp add: stub_libraries_def unpack3_def)
  from script_all_return [OF ret assms] obtain rng mean variance u1 u2 x where
    run: "script stub_libraries ''__main__'' sys_argv =
            histogram stub_libraries x args
              (import_statements @ configuration rng mean variance @
               replicate 10000 (GetValue rng))"
    and conf: "replay stub_libraries import_statements (configuration rng mean variance) =
                 map Returns [rng, mean, u1, variance, u2]"
    and x: "replay stub_libraries (import_statements @ configuration rng mean variance)
              (replicate 10000 (GetValue rng)) = map Returns x"
    by blast
  from conf have v: "rng = PyObject 0" "mean = PyList [PyStr ''DoubleValue'', PyFloat 100.0]"
    "variance = PyList [PyStr ''DoubleValue'', PyFloat 225.0]"
    by (auto simp add: configuration_def stub_libraries_def)
  have "\<forall>tr. stub_libraries tr (GetValue rng) = Returns (PyFloat 100.0)"
    by (simp add: stub_libraries_def GetValue_def)
  from replay_constant [of stub_libraries "GetValue rng" "PyFloat 100.0"] this x
  have "x = replicate 10000 (PyFloat 100.0)"
    by (simp add: map_Returns_replicate)
  with run v histogram_completes [OF ret hist] show ?thesis by (simp add: stub_trace_def)
qed

lemma stub_run_no_arguments:
  "script stub_libraries ''__main__'' [''sample-rng-plot.py''] = (Inr (), stub_trace True)"
  using stub_run [of "[''sample-rng-plot.py'']" "\<lparr>not_blocking = False\<rparr>"] parse_args_empty
  by simp

lemma stub_trace_kinds:
  "\<exists>c\<in>set (stub_trace block). is_GetValue c" "\<exists>c\<in>set (stub_trace block). is_plt c"
  "Call ''plt.show'' [] [(''block'', PyBool block)] \<in> set (stub_trace block)"
  by (simp_all add: stub_trace_def histogram_calls_def)

subsection \<open>The display call\<close>

lemma parse_args_flags:
  assumes "parse_args (drop 1 sys_argv) = Inr args"
  shows "(\<not> not_blocking args) = (\<not> (\<exists>s\<in>set (drop 1 sys_argv). not_blocking_flag s)) \<and>
         (\<forall>s\<in>set (drop 1 sys_argv). not_blocking_flag s)"
proof -
  from parse_args_returns [OF assms]
  have all: "\<forall>a\<in>set (drop 1 sys_argv). not_blocking_flag a"
    and nb: "not_blocking args = (drop 1 sys_argv \<noteq> [])" by auto
  from all have "(\<exists>s\<in>set (drop 1 sys_argv). not_blocking_flag s) = (drop 1 sys_argv \<noteq> [])"
    by (cases "drop 1 sys_argv") auto
  with all nb show ?thesis by simp
qed

text \<open>
  C1, as the claim states it: blocking is enabled whenever \<^verbatim>\<open>--not-blocking\<close> is absent
  from the argument list. The parser is created with \<^verbatim>\<open>allow_abbrev=True\<close>, so the
  argument list \<^verbatim>\<open>--not\<close>, in which \<^verbatim>\<open>--not-blocking\<close> does not occur, sets the flag
  too: the run reaches the display step and calls \<^verbatim>\<open>plt.show(block=False)\<close>.
\<close>

theorem abbreviated_flag_disables_blocking:
  "''--not-blocking'' \<notin> set (drop 1 [''sample-rng-plot.py'', ''--not'']) \<and>
   script stub_libraries ''__main__'' [''sample-rng-plot.py'', ''--not''] =
     (Inr (), stub_trace False) \<and>
   Call ''plt.show'' [] [(''block'', PyBool False)] \<in> set (stub_trace False)"
  using stub_run [of "[''sample-rng-plot.py'', ''--not'']" "\<lparr>not_blocking = True\<rparr>"]
    parse_args_not stub_trace_kinds(3) [of False]
  by simp

text \<open>
  C1, amended: in every run that reaches the display step, \<^verbatim>\<open>plt.show\<close> is called with
  the one keyword argument \<^verbatim>\<open>block\<close>, which is false when the argument list holds
  \<^verbatim>\<open>--not-blocking\<close> or one of its abbreviations (\<^verbatim>\<open>--n\<close>, \<^verbatim>\<open>--no\<close>, \<^verbatim>\<open>--not\<close> and so
  on) and true otherwise. Such a run has nothing but these spellings in its argument
  list: the flag takes no argument, and with no argument at all it is off.
\<close>

theorem display_blocks_unless_flag_given:
  assumes "script lib name sys_argv = (r, tr)" and "Call ''plt.show'' a kw \<in> set tr"
  shows "a = [] \<and>
         kw = [(''block'', PyBool (\<not> (\<exists>s\<in>set (drop 1 sys_argv). not_blocking_flag s)))] \<and>
         (\<forall>s\<in>set (drop 1 sys_argv). not_blocking_flag s)"
  using assms(1)
proof (cases rule: script_cases)
  case (import_fails k e)
  with assms(2) import_statements_kinds [of "Call ''plt.show'' a kw"] show ?thesis
    by (auto dest: in_set_takeD)
next
  case not_main
  with assms(2) import_statements_kinds [of "Call ''plt.show'' a kw"] show ?thesis by auto
next
  case (parser_exit ex)
  with assms(2) import_statements_kinds [of "Call ''plt.show'' a kw"] show ?thesis by auto
next
  case (main args)
  from main(4,3) show ?thesis
  proof (cases rule: main_cases)
    case (configuring e k rng mean variance)
    with assms(2) import_statements_kinds [of "Call ''plt.show'' a kw"]
      configuration_kinds [of "Call ''plt.show'' a kw" rng mean variance]
    show ?thesis by (auto dest: in_set_takeD)
  next
    case (sampling e k rng mean variance u1 u2)
    with assms(2) import_statements_kinds [of "Call ''plt.show'' a kw"]
      configuration_kinds [of "Call ''plt.show'' a kw" rng mean variance]
    show ?thesis by (auto simp: GetValue_def)
  next
    case (plotting rng mean variance u1 u2 x)
    from histogram_cases [OF plotting(4)] obtain post where
      post: "tr = (import_statements @ configuration rng mean variance @
                   replicate 10000 (GetValue rng)) @ post"
        "prefix post (histogram_calls x (\<not> not_blocking args))" by auto
    with assms(2) import_statements_kinds [of "Call ''plt.show'' a kw"]
      configuration_kinds [of "Call ''plt.show'' a kw" rng mean variance]
    have "Call ''plt.show'' a kw \<in> set post" by (auto simp: GetValue_def)
    with post(2) have "Call ''plt.show'' a kw \<in> set (histogram_calls x (\<not> not_blocking args))"
      by (auto dest: set_mono_prefix)
    then have "a = [] \<and> kw = [(''block'', PyBool (\<not> not_blocking args))]"
      by (auto simp: histogram_calls_def)
    with parse_args_flags [OF main(3)] show ?thesis by simp
  qed
qed

theorem display_blocks_unless_flag_given_witness:
  "script stub_libraries ''__main__'' [''sample-rng-plot.py'', ''--not-blocking''] =
     (Inr (), stub_trace False) \<and>
   Call ''plt.show'' [] [(''block'', PyBool False)] \<in> set (stub_trace False) \<and>
   [(''block'', PyBool False)] =
     [(''block'', PyBool (\<not> (\<exists>s\<in>set (drop 1 [''sample-rng-plot.py'', ''--not-blocking'']).
                                 not_blocking_flag s)))] \<and>
   not_blocking_flag ''--not-blocking''"
proof -
  have run: "script stub_libraries ''__main__'' [''sample-rng-plot.py'', ''--not-blocking''] =
               (Inr (), stub_trace False)"
    using stub_run [of "[''sample-rng-plot.py'', ''--not-blocking'']" "\<lparr>not_blocking = True\<rparr>"]
      parse_args_not_blocking
    by simp
  have mem: "Call ''plt.show'' [] [(''block'', PyBool False)] \<in> set (stub_trace False)"
    by (rule stub_trace_kinds)
  from display_blocks_unless_flag_given [OF run mem] run mem show ?thesis
    by simp
qed

subsection \<open>Configuration and sampling\<close>

text \<open>
  C2: in every run that reaches the sampling step, and in which no call of
  \<^verbatim>\<open>GetValue\<close> raises, \<^verbatim>\<open>GetValue\<close> is called exactly 10000 times, the calls follow one
  another, and the very next call is \<^verbatim>\<open>plt.hist\<close> on the list of length 10000 that
  holds, in call order, exactly what the 10000 calls returned; no plotting call comes
  before.
\<close>

theorem ten_thousand_samples_in_call_order:
  assumes "script lib name sys_argv = (r, tr)"
    and "\<exists>c\<in>set tr. is_GetValue c"
    and "\<forall>(c, a)\<in>set (answers lib tr). is_GetValue c \<longrightarrow> returns a"
  shows "\<exists>pre rng x post.
           tr = pre @ replicate 10000 (GetValue rng) @
                Call ''plt.hist'' [PyList x, PyInt 50]
                  [(''density'', PyBool True), (''facecolor'', PyStr ''g''),
                   (''alpha'', PyFloat 0.75)] # post \<and>
           (\<forall>c\<in>set pre. \<not> is_GetValue c \<and> \<not> is_plt c) \<and>
           (\<forall>c\<in>set post. \<not> is_GetValue c) \<and>
           length (filter is_GetValue tr) = 10000 \<and>
           length x = 10000 \<and>
           replay lib pre (replicate 10000 (GetValue rng)) = map Returns x"
  using assms(1)
proof (cases rule: script_cases)
  case (import_fails k e)
  with early_exit_kinds [of tr "Suc k"] assms(2) show ?thesis by auto
next
  case not_main
  with early_exit_kinds [of tr 0] assms(2) show ?thesis by auto
next
  case (parser_exit ex)
  with early_exit_kinds [of tr 0] assms(2) show ?thesis by auto
next
  case (main args)
  from main(4,3) show ?thesis
  proof (cases rule: main_cases)
    case (configuring e k rng mean variance)
    with assms(2) import_statements_kinds configuration_kinds [of _ rng mean variance]
    show ?thesis by (auto dest: in_set_takeD)
  next
    case (sampling e k rng mean variance u1 u2)
    from answers_sampling [of lib "import_statements @ configuration rng mean variance" k rng e]
      sampling(4,6) assms(3)
    show ?thesis by auto
  next
    case (plotting rng mean variance u1 u2 x)
    define pre where "pre = import_statements @ configuration rng mean variance"
    from histogram_cases [OF plotting(4)] obtain post where
      post: "tr = (pre @ replicate 10000 (GetValue rng)) @ post" "post \<noteq> []"
        "prefix post (histogram_calls x (\<not> not_blocking args))"
      by (auto simp: pre_def)
    from prefix_histogram_calls [OF post(2,3)] obtain post' where
      post': "post = Call ''plt.hist'' [PyList x, PyInt 50]
                [(''density'', PyBool True), (''facecolor'', PyStr ''g''),
                 (''alpha'', PyFloat 0.75)] # post'"
        "\<forall>c\<in>set post'. \<not> is_GetValue c" by blast
    have pre: "\<forall>c\<in>set pre. \<not> is_GetValue c \<and> \<not> is_plt c"
      using import_statements_kinds configuration_kinds [of _ rng mean variance]
      by (auto simp: pre_def)
    from pre post' have count: "length (filter is_GetValue tr) = 10000"
      unfolding post(1) by simp
    from post(1) post'(1) have "tr = pre @ replicate 10000 (GetValue rng) @
        Call ''plt.hist'' [PyList x, PyInt 50]
          [(''density'', PyBool True), (''facecolor'', PyStr ''g''),
           (''alpha'', PyFloat 0.75)] # post'" by simp
    with pre post'(2) count plotting(2,3) show ?thesis
      unfolding pre_def [symmetric] by blast
  qed
qed

theorem ten_thousand_samples_in_call_order_witness:
  "script stub_libraries ''__main__'' [''sample-rng-plot.py''] = (Inr (), stub_trace True) \<and>
   (\<exists>c\<in>set (stub_trace True). is_GetValue c) \<and>
   list_all (\<lambda>(c, a). returns a) (answers stub_libraries (stub_trace True)) \<and>
   (\<exists>pre rng x post.
      stub_trace True = pre @ replicate 10000 (GetValue rng) @
        Call ''plt.hist'' [PyList x, PyInt 50]
          [(''density'', PyBool True), (''facecolor'', PyStr ''g''),
           (''alpha'', PyFloat 0.75)] # post \<and>
      (\<forall>c\<in>set pre. \<not> is_GetValue c \<and> \<not> is_plt c) \<and>
      (\<forall>c\<in>set post. \<not> is_GetValue c) \<and>
      length (filter is_GetValue (stub_trace True)) = 10000 \<and>
      length x = 10000 \<and>
      replay stub_libraries pre (replicate 10000 (GetValue rng)) = map Returns x)"
proof -
  have ans: "list_all (\<lambda>(c, a). returns a) (answers stub_libraries (stub_trace True))"
    by (rule answers_returns) (simp add: stub_libraries_returns)
  then have h: "\<forall>(c, a)\<in>set (answers stub_libraries (stub_trace True)).
      is_GetValue c \<longrightarrow> returns a"
    by (auto simp: list_all_iff)
  from ten_thousand_samples_in_call_order [OF stub_run_no_arguments stub_trace_kinds(1) h]
    stub_run_no_arguments stub_trace_kinds(1) [of True] ans
  show ?thesis by blast
qed

text \<open>
  C4: in every run that reaches the sampling step, the calls before the first
  \<^verbatim>\<open>GetValue\<close> are the five imports and then, in this order, the creation of a
  \<^verbatim>\<open>NormalRandomVariable\<close>, \<^verbatim>\<open>DoubleValue(100.0)\<close>, \<^verbatim>\<open>SetAttribute("Mean", \<dots>)\<close> with
  the value just made, \<^verbatim>\<open>DoubleValue(225.0)\<close> and \<^verbatim>\<open>SetAttribute("Variance", \<dots>)\<close> with
  that value, both on the created object; no attribute is set and no object is created
  after the first \<^verbatim>\<open>GetValue\<close>, so each attribute is set exactly once.
\<close>

theorem configured_once_before_sampling:
  assumes "script lib name sys_argv = (r, tr)" and "\<exists>c\<in>set tr. is_GetValue c"
  shows "\<exists>rng mean variance u1 u2 rest.
           tr = import_statements @ configuration rng mean variance @ GetValue rng # rest \<and>
           replay lib import_statements (configuration rng mean variance) =
             map Returns [rng, mean, u1, variance, u2] \<and>
           (\<forall>c\<in>set rest. \<not> is_SetAttribute c \<and> \<not> is_CreateObject c)"
  using assms(1)
proof (cases rule: script_cases)
  case (import_fails k e)
  with early_exit_kinds [of tr "Suc k"] assms(2) show ?thesis by auto
next
  case not_main
  with early_exit_kinds [of tr 0] assms(2) show ?thesis by auto
next
  case (parser_exit ex)
  with early_exit_kinds [of tr 0] assms(2) show ?thesis by auto
next
  case (main args)
  from main(4,3) show ?thesis
  proof (cases rule: main_cases)
    case (configuring e k rng mean variance)
    with assms(2) import_statements_kinds configuration_kinds [of _ rng mean variance]
    show ?thesis by (auto dest: in_set_takeD)
  next
    case (sampling e k rng mean variance u1 u2)
    have "\<forall>c\<in>set (replicate k (GetValue rng)). \<not> is_SetAttribute c \<and> \<not> is_CreateObject c"
      by simp
    moreover from sampling(4) have "tr = import_statements @ configuration rng mean variance @
        GetValue rng # replicate k (GetValue rng)" by simp
    ultimately show ?thesis using sampling(3) by blast
  next
    case (plotting rng mean variance u1 u2 x)
    from histogram_cases [OF plotting(4)] obtain post where
      post: "tr = (import_statements @ configuration rng mean variance @
                   replicate 10000 (GetValue rng)) @ post"
        "prefix post (histogram_calls x (\<not> not_blocking args))" by auto
    from post(2) have "set post \<subseteq> set (histogram_calls x (\<not> not_blocking args))"
      by (rule set_mono_prefix)
    with histogram_calls_kinds
    have "\<forall>c\<in>set post. \<not> is_SetAttribute c \<and> \<not> is_CreateObject c" by blast
    then have rest: "\<forall>c\<in>set (replicate 9999 (GetValue rng) @ post).
        \<not> is_SetAttribute c \<and> \<not> is_CreateObject c" by auto
    have e: "(10000::nat) = Suc 9999" by simp
    have "replicate 10000 (GetValue rng) = GetValue rng # replicate 9999 (GetValue rng)"
      unfolding e by (rule replicate_Suc)
    with post(1) have "tr = import_statements @ configuration rng mean variance @
        GetValue rng # (replicate 9999 (GetValue rng) @ post)" by simp
    with rest plotting(1) show ?thesis by blast
  qed
qed

theorem configured_once_before_sampling_witness:
  "script stub_libraries ''__main__'' [''sample-rng-plot.py''] = (Inr (), stub_trace True) \<and>
   (\<exists>c\<in>set (stub_trace True). is_GetValue c) \<and>
   (\<exists>rng mean variance u1 u2 rest.
      stub_trace True =
        import_statements @ configuration rng mean variance @ GetValue rng # rest \<and>
      replay stub_libraries import_statements (configuration rng mean variance) =
        map Returns [rng, mean, u1, variance, u2] \<and>
      (\<forall>c\<in>set rest. \<not> is_SetAttribute c \<and> \<not> is_CreateObject c))"
  using configured_once_before_sampling [OF stub_run_no_arguments stub_trace_kinds(1)]
    stub_run_no_arguments stub_trace_kinds(1) [of True]
  by blast

text \<open>
  C6: run as a program with no arguments, against libraries whose calls all return and
  whose \<^verbatim>\<open>GetValue\<close> returns 100.0 at every call, the script makes, after the imports
  and the configuration, 10000 calls of \<^verbatim>\<open>GetValue\<close> and then calls \<^verbatim>\<open>plt.hist\<close> on the
  list of 10000 entries 100.0, unmodified; this is the only call of \<^verbatim>\<open>plt.hist\<close>, what
  follows being an initial part of the other five plotting calls.
\<close>

theorem constant_generator_end_to_end:
  assumes "drop 1 sys_argv = []"
    and "\<forall>tr c. returns (lib tr c)"
    and "\<forall>tr rng. lib tr (GetValue rng) = Returns (PyFloat 100.0)"
  shows "\<exists>rng mean variance post.
           snd (script lib ''__main__'' sys_argv) =
             import_statements @ configuration rng mean variance @
             replicate 10000 (GetValue rng) @
             Call ''plt.hist'' [PyList (replicate 10000 (PyFloat 100.0)), PyInt 50]
               [(''density'', PyBool True), (''facecolor'', PyStr ''g''),
                (''alpha'', PyFloat 0.75)] # post \<and>
           prefix
             (Call ''plt.hist'' [PyList (replicate 10000 (PyFloat 100.0)), PyInt 50]
                [(''density'', PyBool True), (''facecolor'', PyStr ''g''),
                 (''alpha'', PyFloat 0.75)] # post)
             (histogram_calls (replicate 10000 (PyFloat 100.0)) True)"
proof -
  have p: "parse_args (drop 1 sys_argv) = Inr \<lparr>not_blocking = False\<rparr>"
    unfolding assms(1) by code_simp
  from script_all_return [OF assms(2) p] obtain rng mean variance x where
    run: "script lib ''__main__'' sys_argv =
            histogram lib x \<lparr>not_blocking = False\<rparr>
              (import_statements @ configuration rng mean variance @
               replicate 10000 (GetValue rng))"
    and x: "replay lib (import_statements @ configuration rng mean variance)
              (replicate 10000 (GetValue rng)) = map Returns x"
    by auto
  from assms(3) have "\<forall>tr. lib tr (GetValue rng) = Returns (PyFloat 100.0)" by simp
  from replay_constant [of lib "GetValue rng" "PyFloat 100.0"] this x
  have x': "x = replicate 10000 (PyFloat 100.0)"
    by (simp add: map_Returns_replicate)
  obtain r tr where rt: "script lib ''__main__'' sys_argv = (r, tr)"
    by (cases "script lib ''__main__'' sys_argv") auto
  with run have "histogram lib x \<lparr>not_blocking = False\<rparr>
      (import_statements @ configuration rng mean variance @
       replicate 10000 (GetValue rng)) = (r, tr)" by simp
  from histogram_cases [OF this] obtain post where
    post: "tr = (import_statements @ configuration rng mean variance @
                 replicate 10000 (GetValue rng)) @ post"
      "post \<noteq> []" "prefix post (histogram_calls x True)" by auto
  from prefix_histogram_calls [OF post(2,3)] obtain post' where
    post': "post = Call ''plt.hist'' [PyList x, PyInt 50]
              [(''density'', PyBool True), (''facecolor'', PyStr ''g''),
               (''alpha'', PyFloat 0.75)] # post'" by blast
  from rt post(1) have "snd (script lib ''__main__'' sys_argv) =
      import_statements @ configuration rng mean variance @
      replicate 10000 (GetValue rng) @ post" by simp
  with post(3) post' x' show ?thesis by blast
qed

theorem constant_generator_end_to_end_witness:
  "drop 1 [''sample-rng-plot.py''] = [] \<and>
   (\<forall>tr c. returns (stub_libraries tr c)) \<and>
   (\<forall>tr rng. stub_libraries tr (GetValue rng) = Returns (PyFloat 100.0)) \<and>
   (\<exists>rng mean variance post.
      snd (script stub_libraries ''__main__'' [''sample-rng-plot.py'']) =
        import_statements @ configuration rng mean variance @
        replicate 10000 (GetValue rng) @
        Call ''plt.hist'' [PyList (replicate 10000 (PyFloat 100.0)), PyInt 50]
          [(''density'', PyBool True), (''facecolor'', PyStr ''g''),
           (''alpha'', PyFloat 0.75)] # post \<and>
      prefix
        (Call ''plt.hist'' [PyList (replicate 10000 (PyFloat 100.0)), PyInt 50]
           [(''density'', PyBool True), (''facecolor'', PyStr ''g''),
            (''alpha'', PyFloat 0.75)] # post)
        (histogram_calls (replicate 10000 (PyFloat 100.0)) True))"
proof -
  have a: "drop 1 [''sample-rng-plot.py''] = []" by simp
  have b: "\<forall>tr c. returns (stub_libraries tr c)" by (simp add: stub_libraries_returns)
  have c: "\<forall>tr rng. stub_libraries tr (GetValue rng) = Returns (PyFloat 100.0)"
    by (simp add: stub_libraries_def GetValue_def)
  from constant_generator_end_to_end [OF a b c] a b c show ?thesis by blast
qed

subsection \<open>Visualization and exit\<close>

text \<open>
  C7: in every run that reaches the visualization step, the plotting calls come after
  the 10000 calls of \<^verbatim>\<open>GetValue\<close> and are an initial part of the six calls of
  \<open>histogram_calls\<close>, beginning with \<^verbatim>\<open>plt.hist\<close> over the full list of samples with 50
  bins, \<^verbatim>\<open>density=True\<close>, \<^verbatim>\<open>facecolor="g"\<close> and \<^verbatim>\<open>alpha=0.75\<close>; when the display call
  is reached, all six were made in order: the histogram, the title "ns-3 histogram", the
  annotation, the axis bounds 40, 160, 0, 0.03, the grid, and the display call last.
\<close>

theorem histogram_rendering_sequence:
  assumes "script lib name sys_argv = (r, tr)" and "\<exists>c\<in>set tr. is_plt c"
  shows "\<exists>pre rng x block post.
           tr = pre @ replicate 10000 (GetValue rng) @ post \<and>
           (\<forall>c\<in>set pre. \<not> is_plt c \<and> \<not> is_GetValue c) \<and>
           length x = 10000 \<and>
           replay lib pre (replicate 10000 (GetValue rng)) = map Returns x \<and>
           post \<noteq> [] \<and> prefix post (histogram_calls x block) \<and>
           ((\<exists>c\<in>set tr. is_show c) \<longrightarrow> post = histogram_calls x block)"
  using assms(1)
proof (cases rule: script_cases)
  case (import_fails k e)
  with early_exit_kinds [of tr "Suc k"] assms(2) show ?thesis by auto
next
  case not_main
  with early_exit_kinds [of tr 0] assms(2) show ?thesis by auto
next
  case (parser_exit ex)
  with early_exit_kinds [of tr 0] assms(2) show ?thesis by auto
next
  case (main args)
  from main(4,3) show ?thesis
  proof (cases rule: main_cases)
    case (configuring e k rng mean variance)
    with assms(2) import_statements_kinds configuration_kinds [of _ rng mean variance]
    show ?thesis by (auto dest: in_set_takeD)
  next
    case (sampling e k rng mean variance u1 u2)
    with assms(2) import_statements_kinds configuration_kinds [of _ rng mean variance]
    show ?thesis by auto
  next
    case (plotting rng mean variance u1 u2 x)
    define pre where "pre = import_statements @ configuration rng mean variance"
    from histogram_cases [OF plotting(4)] obtain post where
      post: "tr = (pre @ replicate 10000 (GetValue rng)) @ post" "post \<noteq> []"
        "prefix post (histogram_calls x (\<not> not_blocking args))"
        "(\<exists>c\<in>set post. is_show c) \<longrightarrow> post = histogram_calls x (\<not> not_blocking args)"
      by (auto simp: pre_def)
    have pre: "\<forall>c\<in>set pre. \<not> is_plt c \<and> \<not> is_GetValue c \<and> \<not> is_show c"
      using import_statements_kinds configuration_kinds [of _ rng mean variance]
      by (auto simp: pre_def)
    with post(1,4)
    have "(\<exists>c\<in>set tr. is_show c) \<longrightarrow> post = histogram_calls x (\<not> not_blocking args)"
      by auto
    moreover from post(1) have "tr = pre @ replicate 10000 (GetValue rng) @ post" by simp
    ultimately show ?thesis using pre post(2,3) plotting(2,3)
      unfolding pre_def [symmetric] by blast
  qed
qed

theorem histogram_rendering_sequence_witness:
  "script stub_libraries ''__main__'' [''sample-rng-plot.py''] = (Inr (), stub_trace True) \<and>
   (\<exists>c\<in>set (stub_trace True). is_plt c) \<and>
   (\<exists>pre rng x block post.
      stub_trace True = pre @ replicate 10000 (GetValue rng) @ post \<and>
      (\<forall>c\<in>set pre. \<not> is_plt c \<and> \<not> is_GetValue c) \<and>
      length x = 10000 \<and>
      replay stub_libraries pre (replicate 10000 (GetValue rng)) = map Returns x \<and>
      post \<noteq> [] \<and> prefix post (histogram_calls x block) \<and>
      ((\<exists>c\<in>set (stub_trace True). is_show c) \<longrightarrow> post = histogram_calls x block))"
  using histogram_rendering_sequence [OF stub_run_no_arguments stub_trace_kinds(2)]
    stub_run_no_arguments stub_trace_kinds(2) [of True]
  by blast

text \<open>
  C8: a run in which the imports succeed, the arguments parse and every call into the
  libraries returns does not always end with exit status 0. The comment of lines 55 and
  56 says that the results of the plot are not needed, yet line 57 unpacks what
  \<^verbatim>\<open>plt.hist\<close> returned into three names. Against \<open>plotting_returns_none\<close>, with no
  arguments, every call of the run returns, \<^verbatim>\<open>plt.hist\<close> is the last of them, the
  unpacking raises \<^verbatim>\<open>TypeError\<close> and the exit status is 1: no title, text, axis, grid or
  display call is made.
\<close>

theorem hist_returning_none_exits_with_status_one:
  "script plotting_returns_none ''__main__'' [''sample-rng-plot.py''] =
     (Inl (TypeError ''cannot unpack non-iterable NoneType object''),
      import_statements @
      configuration (PyObject 0) (PyList [PyStr ''DoubleValue'', PyFloat 100.0])
        (PyList [PyStr ''DoubleValue'', PyFloat 225.0]) @
      replicate 10000 (GetValue (PyObject 0)) @
      [Call ''plt.hist'' [PyList (replicate 10000 (PyFloat 100.0)), PyInt 50]
         [(''density'', PyBool True), (''facecolor'', PyStr ''g''),
          (''alpha'', PyFloat 0.75)]]) \<and>
   list_all (\<lambda>(c, a). returns a)
     (answers plotting_returns_none
        (snd (script plotting_returns_none ''__main__'' [''sample-rng-plot.py'']))) \<and>
   parse_args (drop 1 [''sample-rng-plot.py'']) = Inr \<lparr>not_blocking = False\<rparr> \<and>
   exit_status (fst (script plotting_returns_none ''__main__'' [''sample-rng-plot.py''])) = 1 \<and>
   interpreter_stderr (fst (script plotting_returns_none ''__main__'' [''sample-rng-plot.py''])) =
     Traceback (TypeError ''cannot unpack non-iterable NoneType object'')"
proof -
  have ret: "\<forall>tr c. returns (plotting_returns_none tr c)"
    by (simp add: plotting_returns_none_def stub_libraries_def split: call.splits)
  have p: "parse_args (drop 1 [''sample-rng-plot.py'']) = Inr \<lparr>not_blocking = False\<rparr>"
    using parse_args_empty by simp
  from script_all_return [OF ret p] obtain rng mean variance u1 u2 x where
    run: "script plotting_returns_none ''__main__'' [''sample-rng-plot.py''] =
            histogram plotting_returns_none x \<lparr>not_blocking = False\<rparr>
              (import_statements @ configuration rng mean variance @
               replicate 10000 (GetValue rng))"
    and conf: "replay plotting_returns_none import_statements
                 (configuration rng mean variance) =
                 map Returns [rng, mean, u1, variance, u2]"
    and x: "replay plotting_returns_none (import_statements @ configuration rng mean variance)
              (replicate 10000 (GetValue rng)) = map Returns x"
    by blast
  from conf have v: "rng = PyObject 0" "mean = PyList [PyStr ''DoubleValue'', PyFloat 100.0]"
    "variance = PyList [PyStr ''DoubleValue'', PyFloat 225.0]"
    by (auto simp add: configuration_def plotting_returns_none_def stub_libraries_def)
  have "\<forall>tr. plotting_returns_none tr (GetValue rng) = Returns (PyFloat 100.0)"
    by (simp add: plotting_returns_none_def stub_libraries_def GetValue_def)
  from replay_constant [of plotting_returns_none "GetValue rng" "PyFloat 100.0"] this x
  have x': "x = replicate 10000 (PyFloat 100.0)"
    by (simp add: map_Returns_replicate)
  have none: "unpack3 PyNone = Inl (TypeError ''cannot unpack non-iterable NoneType object'')"
    by (simp add: unpack3_def)
  have hist: "\<And>tr. plotting_returns_none tr
      (hd (histogram_calls x (\<not> not_blocking \<lparr>not_blocking = False\<rparr>))) = Returns PyNone"
    by (simp add: histogram_calls_def plotting_returns_none_def)
  have result: "script plotting_returns_none ''__main__'' [''sample-rng-plot.py''] =
     (Inl (TypeError ''cannot unpack non-iterable NoneType object''),
      import_statements @
      configuration (PyObject 0) (PyList [PyStr ''DoubleValue'', PyFloat 100.0])
        (PyList [PyStr ''DoubleValue'', PyFloat 225.0]) @
      replicate 10000 (GetValue (PyObject 0)) @
      [Call ''plt.hist'' [PyList (replicate 10000 (PyFloat 100.0)), PyInt 50]
         [(''density'', PyBool True), (''facecolor'', PyStr ''g''),
          (''alpha'', PyFloat 0.75)]])"
    unfolding run histogram_run hist
    by (simp add: none v x' histogram_calls_def)
  have ans: "list_all (\<lambda>(c, a). returns a)
     (answers plotting_returns_none
        (snd (script plotting_returns_none ''__main__'' [''sample-rng-plot.py''])))"
    using ret by (rule answers_returns)
  have status: "exit_status (Inl (TypeError ''cannot unpack non-iterable NoneType object'')) = 1"
    by (simp add: isinstance_def TypeError_def)
  have err: "interpreter_stderr (Inl (TypeError ''cannot unpack non-iterable NoneType object'')) =
      Traceback (TypeError ''cannot unpack non-iterable NoneType object'')"
    by (simp add: isinstance_def TypeError_def)
  from result ans p status err show ?thesis by simp
qed

end
